theory Spec2Isabelle
  imports Complex_Main "HOL-Library.Word" "HOL-Library.Log_Nat"
begin

section \<open>Go values used by the collectors\<close>

subsection \<open>Panics\<close>

text \<open>
  The collectors return no error values. What can go wrong at run time is a panic:
  dereferencing a nil pointer (\<^verbatim>\<open>*d.Spec.Replicas\<close>) and a failed type assertion
  (\<^verbatim>\<open>obj.(*v1.Pod)\<close>). A function that may panic returns \<open>panic + 'a\<close>.
\<close>

datatype panic = NilPointerDereference | TypeAssertionFailed

subsection \<open>Slices and \<^verbatim>\<open>append\<close>\<close>

text \<open>
  A slice of strings that lives in a package-level variable is kept with its backing
  array: \<open>arr\<close> holds the cells of the array from the slice's first element up to its
  capacity, \<open>len\<close> is the slice's length. A slice literal has capacity equal to its length.
\<close>

record goslice =
  arr :: "string list"
  len :: nat

definition cap :: "goslice \<Rightarrow> nat" where
  "cap s = length (arr s)"

definition elems :: "goslice \<Rightarrow> string list" where
  "elems s = take (len s) (arr s)"

definition slice_literal :: "string list \<Rightarrow> goslice" where
  "slice_literal xs = \<lparr>arr = xs, len = length xs\<rparr>"

text \<open>
  \<^verbatim>\<open>append(s, ys...)\<close>. When the capacity suffices, Go writes \<open>ys\<close> into the backing
  array of \<open>s\<close> behind its last element and the result shares that array; otherwise a new
  array is allocated and the array of \<open>s\<close> is left alone. The function returns the operand
  as it is after the call (same header, array possibly written) and the elements of the
  result.
\<close>

definition go_append :: "goslice \<Rightarrow> string list \<Rightarrow> goslice \<times> string list" where
  "go_append s ys =
     (if len s + length ys \<le> cap s
      then (s\<lparr>arr := take (len s) (arr s) @ ys @ drop (len s + length ys) (arr s)\<rparr>,
            elems s @ ys)
      else (s, elems s @ ys))"

subsection \<open>Numeric conversions\<close>

text \<open>
  \<^verbatim>\<open>float64(i)\<close> for an integer \<open>i\<close> of at most 64 bits: the nearest value with a
  53-bit significand, ties to even. No 64-bit integer is out of the range of float64.
\<close>

definition float64_of_int :: "int \<Rightarrow> real" where
  "float64_of_int i =
     (let a = \<bar>i\<bar>;
          k = nat (bitlen a - 53);
          q = a div 2 ^ k;
          r = a mod 2 ^ k;
          q' = (if 2 ^ k < 2 * r \<or> (2 * r = 2 ^ k \<and> odd q) then q + 1 else q)
      in real_of_int (sgn i * q' * 2 ^ k))"

text \<open>\<^verbatim>\<open>strconv.FormatBool\<close>.\<close>

definition FormatBool :: "bool \<Rightarrow> string" where
  "FormatBool b = (if b then ''true'' else ''false'')"

section \<open>Kubernetes API objects\<close>

text \<open>
  The fields of the API types that the collectors read. \<^verbatim>\<open>time.Time\<close> is kept as the
  seconds since January 1, year 1 00:00:00 UTC and the nanoseconds within the second;
  its zero value is that instant.
\<close>

record Time =
  sec :: "64 word"
  nsec :: nat

definition internalToUnix :: "64 word" where
  "internalToUnix = - 62135596800"

definition IsZero :: "Time \<Rightarrow> bool" where
  "IsZero t = (sec t = 0 \<and> nsec t = 0)"

definition Unix :: "Time \<Rightarrow> 64 word" where
  "Unix t = sec t + internalToUnix"

record OwnerReference =
  owner_Kind :: string
  owner_Name :: string
  Controller :: "bool option"

text \<open>
  \<^verbatim>\<open>metav1.ObjectMeta\<close> is embedded in every object, so its fields are fields of
  the object: the object records below extend this one. A Go map is a partial function.
\<close>

record ObjectMeta =
  meta_Name :: string
  meta_Namespace :: string
  UID :: string
  CreationTimestamp :: Time
  DeletionTimestamp :: "Time option"
  Labels :: "string \<rightharpoonup> string"
  Annotations :: "string \<rightharpoonup> string"
  OwnerReferences :: "OwnerReference list"

record PodSpec =
  NodeName :: string

record PodCondition =
  cond_Type :: string
  cond_Status :: string

record ContainerStateWaiting =
  waiting_Reason :: string

record ContainerStateTerminated =
  terminated_Reason :: string

record ContainerState =
  Waiting :: "ContainerStateWaiting option"
  Terminated :: "ContainerStateTerminated option"

record ContainerStatus =
  container_Name :: string
  State :: ContainerState
  LastTerminationState :: ContainerState

record PodStatus =
  Phase :: string
  Conditions :: "PodCondition list"
  Reason :: string
  HostIP :: string
  PodIP :: string
  ContainerStatuses :: "ContainerStatus list"

record Pod = ObjectMeta +
  pod_Spec :: PodSpec
  pod_Status :: PodStatus

record DeploymentSpec =
  spec_Replicas :: "32 word option"

record DeploymentStatus =
  status_Replicas :: "32 word"
  AvailableReplicas :: "32 word"
  UnavailableReplicas :: "32 word"

record Deployment = ObjectMeta +
  deployment_Spec :: DeploymentSpec
  deployment_Status :: DeploymentStatus

record Namespace = ObjectMeta +
  namespace_Phase :: string

text \<open>The dynamic type behind \<^verbatim>\<open>interface{}\<close>: the kinds of object the stores hold.\<close>

datatype object =
  PodObject Pod
| DeploymentObject Deployment
| NamespaceObject Namespace

text \<open>Constants of \<^verbatim>\<open>k8s.io/api/core/v1\<close> and \<^verbatim>\<open>k8s.io/kubernetes/pkg/util/node\<close>.\<close>

definition PodPending :: string where "PodPending = ''Pending''"
definition PodRunning :: string where "PodRunning = ''Running''"
definition PodSucceeded :: string where "PodSucceeded = ''Succeeded''"
definition PodFailed :: string where "PodFailed = ''Failed''"
definition PodUnknown :: string where "PodUnknown = ''Unknown''"

definition PodScheduled :: string where "PodScheduled = ''PodScheduled''"
definition PodReady :: string where "PodReady = ''Ready''"

definition ConditionTrue :: string where "ConditionTrue = ''True''"
definition ConditionFalse :: string where "ConditionFalse = ''False''"
definition ConditionUnknown :: string where "ConditionUnknown = ''Unknown''"

definition NodeUnreachablePodReason :: string where
  "NodeUnreachablePodReason = ''NodeLost''"

text \<open>
  \<^verbatim>\<open>metav1.GetControllerOf\<close>: the first owner reference whose controller flag is set
  and true, nil when there is none.
\<close>

definition GetControllerOf :: "OwnerReference list \<Rightarrow> OwnerReference option" where
  "GetControllerOf refs = List.find (\<lambda>ref. Controller ref = Some True) refs"

section \<open>Metrics\<close>

text \<open>
  Modelled from the spec: package \<^verbatim>\<open>pkg/metrics\<close> (the types \<^verbatim>\<open>Metric\<close>,
  \<^verbatim>\<open>Family\<close>, \<^verbatim>\<open>FamilyGenerator\<close> and \<^verbatim>\<open>MetricType\<close>) is not among the
  sources. A metric is label keys, label values and a numeric value; a family is a
  group of metrics; a family generator declares name, type, help text and the mapping
  from an object to a family. The field names are the ones the collectors write.
  A family is a slice of pointers to metrics, each allocated where it is appended, so
  assigning to a field of a metric of a family changes that metric only.
\<close>

datatype MetricType = MetricTypeGauge | MetricTypeCounter

record Metric =
  Name :: string
  LabelKeys :: "string list"
  LabelValues :: "string list"
  Value :: real

type_synonym Family = "Metric list"

text \<open>
  A metric literal that leaves fields out has them at their zero value.
\<close>

definition Metric0 :: Metric where
  "Metric0 = \<lparr>Name = [], LabelKeys = [], LabelValues = [], Value = 0\<rparr>"

section \<open>Package-level variables\<close>

text \<open>
  The default-label slices are operands of \<^verbatim>\<open>append\<close> in the wrappers, so their
  backing arrays are state that a call may write. The wrapped generators take this
  state and return it.
\<close>

record globals =
  descPodLabelsDefaultLabels :: goslice
  descDeploymentLabelsDefaultLabels :: goslice
  descNamespaceLabelsDefaultLabels :: goslice

definition init_globals :: globals where
  "init_globals =
     \<lparr>descPodLabelsDefaultLabels = slice_literal [''namespace'', ''pod''],
      descDeploymentLabelsDefaultLabels = slice_literal [''namespace'', ''deployment''],
      descNamespaceLabelsDefaultLabels = slice_literal [''namespace'']\<rparr>"

record FamilyGenerator =
  FamilyName :: string
  FamilyType :: MetricType
  Help :: string
  GenerateFunc :: "globals \<Rightarrow> object \<Rightarrow> (panic + Family) \<times> globals"

text \<open>
  The other package-level variables are only read: no statement assigns them or appends
  to them, so they are constants here.
\<close>

definition descNamespaceAnnotationsDefaultLabels :: "string list" where
  "descNamespaceAnnotationsDefaultLabels = [''namespace'']"

definition containerWaitingReasons :: "string list" where
  "containerWaitingReasons =
     [''ContainerCreating'', ''CrashLoopBackOff'', ''CreateContainerConfigError'',
      ''ErrImagePull'', ''ImagePullBackOff'']"

definition containerTerminatedReasons :: "string list" where
  "containerTerminatedReasons = [''OOMKilled'', ''Completed'', ''Error'', ''ContainerCannotRun'']"

definition descDeploymentLabelsName :: string where
  "descDeploymentLabelsName = ''kube_deployment_labels''"

definition descDeploymentLabelsHelp :: string where
  "descDeploymentLabelsHelp = ''Kubernetes labels converted to Prometheus labels.''"

definition descNamespaceLabelsName :: string where
  "descNamespaceLabelsName = ''kube_namespace_labels''"

definition descNamespaceLabelsHelp :: string where
  "descNamespaceLabelsHelp = ''Kubernetes labels converted to Prometheus labels.''"

definition descNamespaceAnnotationsName :: string where
  "descNamespaceAnnotationsName = ''kube_namespace_annotations''"

definition descNamespaceAnnotationsHelp :: string where
  "descNamespaceAnnotationsHelp = ''Kubernetes annotations converted to Prometheus labels.''"

section \<open>Helpers of the collectors\<close>

text \<open>
  Modelled from the spec: \<^verbatim>\<open>boolFloat64\<close> is a function of this package that is not
  among the sources. A boolean sample is valued 1.0 when its predicate holds and 0.0
  otherwise.
\<close>

definition boolFloat64 :: "bool \<Rightarrow> real" where
  "boolFloat64 b = (if b then 1 else 0)"

text \<open>
  Modelled from the spec: \<^verbatim>\<open>addConditionMetrics\<close> is a function of this package that
  is not among the sources. A condition with value in True, False, Unknown is encoded
  as three metrics with one label value naming the state (\<^verbatim>\<open>true\<close>, \<^verbatim>\<open>false\<close>,
  \<^verbatim>\<open>unknown\<close>), each valued 1.0 for the matching state and 0.0 otherwise. The callers
  set name and label keys.
\<close>

definition addConditionMetrics :: "string \<Rightarrow> Metric list" where
  "addConditionMetrics cs =
     [Metric0\<lparr>LabelValues := [''true''], Value := boolFloat64 (cs = ConditionTrue)\<rparr>,
      Metric0\<lparr>LabelValues := [''false''], Value := boolFloat64 (cs = ConditionFalse)\<rparr>,
      Metric0\<lparr>LabelValues := [''unknown''], Value := boolFloat64 (cs = ConditionUnknown)\<rparr>]"

definition waitingReason :: "ContainerStatus \<Rightarrow> string \<Rightarrow> bool" where
  "waitingReason cs reason =
     (case Waiting (State cs) of
        None \<Rightarrow> False
      | Some w \<Rightarrow> waiting_Reason w = reason)"

definition terminationReason :: "ContainerStatus \<Rightarrow> string \<Rightarrow> bool" where
  "terminationReason cs reason =
     (case Terminated (State cs) of
        None \<Rightarrow> False
      | Some t \<Rightarrow> terminated_Reason t = reason)"

definition lastTerminationReason :: "ContainerStatus \<Rightarrow> string \<Rightarrow> bool" where
  "lastTerminationReason cs reason =
     (case Terminated (LastTerminationState cs) of
        None \<Rightarrow> False
      | Some t \<Rightarrow> terminated_Reason t = reason)"

section \<open>Pod collector\<close>

text \<open>
  The functions handed to \<^verbatim>\<open>wrapPodFunc\<close> in \<^verbatim>\<open>podMetricFamilies\<close>, named after
  the family they generate. A \<^verbatim>\<open>for ... range\<close> loop that appends to the family is a
  left fold over the ranged slice, the family being the accumulator.
\<close>

definition kube_pod_info :: "Pod \<Rightarrow> panic + Family" where
  "kube_pod_info p =
     (let createdBy = GetControllerOf (OwnerReferences p);
          createdByKind =
            (case createdBy of
               None \<Rightarrow> ''<none>''
             | Some ref \<Rightarrow> if owner_Kind ref \<noteq> [] then owner_Kind ref else ''<none>'');
          createdByName =
            (case createdBy of
               None \<Rightarrow> ''<none>''
             | Some ref \<Rightarrow> if owner_Name ref \<noteq> [] then owner_Name ref else ''<none>'');
          m = \<lparr>Name = ''kube_pod_info'',
               LabelKeys = [''host_ip'', ''pod_ip'', ''uid'', ''node'', ''created_by_kind'',
                            ''created_by_name''],
               LabelValues = [HostIP (pod_Status p), PodIP (pod_Status p), UID p,
                              NodeName (pod_Spec p), createdByKind, createdByName],
               Value = 1\<rparr>
      in Inr [m])"

definition kube_pod_owner :: "Pod \<Rightarrow> panic + Family" where
  "kube_pod_owner p =
     (let labelKeys = [''owner_kind'', ''owner_name'', ''owner_is_controller''];
          f = [];
          owners = OwnerReferences p
      in if length owners = 0
         then Inr (f @ [\<lparr>Name = ''kube_pod_owner'',
                          LabelKeys = labelKeys,
                          LabelValues = [''<none>'', ''<none>'', ''<none>''],
                          Value = 1\<rparr>])
         else Inr (foldl
                (\<lambda>f owner.
                   (case Controller owner of
                      Some c \<Rightarrow>
                        f @ [\<lparr>Name = ''kube_pod_owner'',
                               LabelKeys = labelKeys,
                               LabelValues = [owner_Kind owner, owner_Name owner, FormatBool c],
                               Value = 1\<rparr>]
                    | None \<Rightarrow>
                        f @ [\<lparr>Name = ''kube_pod_owner'',
                               LabelKeys = labelKeys,
                               LabelValues = [owner_Kind owner, owner_Name owner, ''false''],
                               Value = 1\<rparr>]))
                f owners))"

definition kube_pod_status_phase :: "Pod \<Rightarrow> panic + Family" where
  "kube_pod_status_phase p =
     (let f = [];
          phase = Phase (pod_Status p)
      in if phase = [] then Inr f
         else
           let phases =
                 [(phase = PodPending, PodPending),
                  (phase = PodSucceeded, PodSucceeded),
                  (phase = PodFailed, PodFailed),
                  (phase = PodRunning \<and>
                     \<not> (DeletionTimestamp p \<noteq> None \<and>
                        Reason (pod_Status p) = NodeUnreachablePodReason),
                   PodRunning),
                  (phase = PodUnknown \<or>
                     (DeletionTimestamp p \<noteq> None \<and>
                      Reason (pod_Status p) = NodeUnreachablePodReason),
                   PodUnknown)]
           in Inr (foldl
                (\<lambda>f (v, n).
                   f @ [\<lparr>Name = ''kube_pod_status_phase'',
                          LabelKeys = [''phase''],
                          LabelValues = [n],
                          Value = boolFloat64 v\<rparr>])
                f phases))"

definition kube_pod_status_ready :: "Pod \<Rightarrow> panic + Family" where
  "kube_pod_status_ready p =
     (let f = []
      in Inr (foldl
           (\<lambda>f c.
              if cond_Type c = PodReady
              then let ms = addConditionMetrics (cond_Status c)
                   in foldl
                        (\<lambda>f m. f @ [m\<lparr>Name := ''kube_pod_status_ready'',
                                       LabelKeys := [''condition'']\<rparr>])
                        f ms
              else f)
           f (Conditions (pod_Status p))))"

definition kube_pod_status_scheduled :: "Pod \<Rightarrow> panic + Family" where
  "kube_pod_status_scheduled p =
     (let f = []
      in Inr (foldl
           (\<lambda>f c.
              if cond_Type c = PodScheduled
              then let ms = addConditionMetrics (cond_Status c)
                   in foldl
                        (\<lambda>f m. f @ [m\<lparr>Name := ''kube_pod_status_scheduled'',
                                       LabelKeys := [''condition'']\<rparr>])
                        f ms
              else f)
           f (Conditions (pod_Status p))))"

definition kube_pod_container_status_waiting_reason :: "Pod \<Rightarrow> panic + Family" where
  "kube_pod_container_status_waiting_reason p =
     (let f = []
      in Inr (foldl
           (\<lambda>f cs.
              foldl
                (\<lambda>f reason.
                   f @ [\<lparr>Name = ''kube_pod_container_status_waiting_reason'',
                          LabelKeys = [''container'', ''reason''],
                          LabelValues = [container_Name cs, reason],
                          Value = boolFloat64 (waitingReason cs reason)\<rparr>])
                f containerWaitingReasons)
           f (ContainerStatuses (pod_Status p))))"

text \<open>
  The loop of \<^verbatim>\<open>wrapPodFunc\<close> over the family: each metric gets new label keys and
  values; the default-label slice is the operand of \<^verbatim>\<open>append\<close> and is passed on as
  the call left it. The value literal \<^verbatim>\<open>[]string{pod.Namespace, pod.Name}\<close> is new in
  every round and nothing else refers to it. A metric holds its label keys as they are
  when assigned: a later write into an array they share would show in them, and the
  lemmas on the loops establish that from the initial state no cell is written.
\<close>

fun wrapPodRange :: "Pod \<Rightarrow> Family \<Rightarrow> globals \<Rightarrow> Family \<times> globals" where
  "wrapPodRange pod [] g = ([], g)"
| "wrapPodRange pod (m # ms) g =
     (let (s, keys) = go_append (descPodLabelsDefaultLabels g) (LabelKeys m);
          (_, vals) = go_append (slice_literal [meta_Namespace pod, meta_Name pod])
                        (LabelValues m);
          (ms', g') = wrapPodRange pod ms (g\<lparr>descPodLabelsDefaultLabels := s\<rparr>)
      in (m\<lparr>LabelKeys := keys, LabelValues := vals\<rparr> # ms', g'))"

definition wrapPodFunc ::
  "(Pod \<Rightarrow> panic + Family) \<Rightarrow> globals \<Rightarrow> object \<Rightarrow> (panic + Family) \<times> globals" where
  "wrapPodFunc f g obj =
     (case obj of
        PodObject pod \<Rightarrow>
          (case f pod of
             Inl e \<Rightarrow> (Inl e, g)
           | Inr metricFamily \<Rightarrow>
               (let (metricFamily', g') = wrapPodRange pod metricFamily g
                in (Inr metricFamily', g')))
      | _ \<Rightarrow> (Inl TypeAssertionFailed, g))"

definition podMetricFamilies :: "FamilyGenerator list" where
  "podMetricFamilies =
     [\<lparr>FamilyName = ''kube_pod_info'',
       FamilyType = MetricTypeGauge,
       Help = ''Information about pod.'',
       GenerateFunc = wrapPodFunc kube_pod_info\<rparr>,
      \<lparr>FamilyName = ''kube_pod_owner'',
       FamilyType = MetricTypeGauge,
       Help = ''Information about the Pod's owner.'',
       GenerateFunc = wrapPodFunc kube_pod_owner\<rparr>,
      \<lparr>FamilyName = ''kube_pod_status_phase'',
       FamilyType = MetricTypeGauge,
       Help = ''The pods current phase.'',
       GenerateFunc = wrapPodFunc kube_pod_status_phase\<rparr>,
      \<lparr>FamilyName = ''kube_pod_status_ready'',
       FamilyType = MetricTypeGauge,
       Help = ''Describes whether the pod is ready to serve requests.'',
       GenerateFunc = wrapPodFunc kube_pod_status_ready\<rparr>,
      \<lparr>FamilyName = ''kube_pod_status_scheduled'',
       FamilyType = MetricTypeGauge,
       Help = ''Describes the status of the scheduling process for the pod.'',
       GenerateFunc = wrapPodFunc kube_pod_status_scheduled\<rparr>,
      \<lparr>FamilyName = ''kube_pod_container_status_waiting_reason'',
       FamilyType = MetricTypeGauge,
       Help = ''Describes the reason the container is currently in waiting state.'',
       GenerateFunc = wrapPodFunc kube_pod_container_status_waiting_reason\<rparr>]"

section \<open>Deployment collector\<close>

text \<open>
  \<^verbatim>\<open>kubeLabelsToPrometheusLabels\<close> and \<^verbatim>\<open>kubeAnnotationsToPrometheusAnnotations\<close>
  are functions of this package that are not among the sources, and the spec does not
  describe them: the generators that call them take them as a parameter, a function
  from the label map to the pair of label keys and label values.
\<close>

type_synonym labelsFunc = "(string \<rightharpoonup> string) \<Rightarrow> string list \<times> string list"

definition kube_deployment_created :: "Deployment \<Rightarrow> panic + Family" where
  "kube_deployment_created d =
     (let f = []
      in if \<not> IsZero (CreationTimestamp d)
         then Inr (f @ [Metric0\<lparr>Name := ''kube_deployment_created'',
                                Value := float64_of_int (sint (Unix (CreationTimestamp d)))\<rparr>])
         else Inr f)"

definition kube_deployment_status_replicas :: "Deployment \<Rightarrow> panic + Family" where
  "kube_deployment_status_replicas d =
     Inr [Metric0\<lparr>Name := ''kube_deployment_status_replicas'',
                  Value := float64_of_int (sint (status_Replicas (deployment_Status d)))\<rparr>]"

definition kube_deployment_status_replicas_available :: "Deployment \<Rightarrow> panic + Family" where
  "kube_deployment_status_replicas_available d =
     Inr [Metric0\<lparr>Name := ''kube_deployment_status_replicas_available'',
                  Value := float64_of_int (sint (AvailableReplicas (deployment_Status d)))\<rparr>]"

definition kube_deployment_status_replicas_unavailable :: "Deployment \<Rightarrow> panic + Family" where
  "kube_deployment_status_replicas_unavailable d =
     Inr [Metric0\<lparr>Name := ''kube_deployment_status_replicas_unavailable'',
                  Value := float64_of_int (sint (UnavailableReplicas (deployment_Status d)))\<rparr>]"

text \<open>\<^verbatim>\<open>*d.Spec.Replicas\<close> dereferences the pointer without a nil check.\<close>

definition kube_deployment_spec_replicas :: "Deployment \<Rightarrow> panic + Family" where
  "kube_deployment_spec_replicas d =
     (case spec_Replicas (deployment_Spec d) of
        None \<Rightarrow> Inl NilPointerDereference
      | Some r \<Rightarrow>
          Inr [Metric0\<lparr>Name := ''kube_deployment_spec_replicas'',
                       Value := float64_of_int (sint r)\<rparr>])"

definition kube_deployment_labels :: "labelsFunc \<Rightarrow> Deployment \<Rightarrow> panic + Family" where
  "kube_deployment_labels kubeLabelsToPrometheusLabels d =
     (let (labelKeys, labelValues) = kubeLabelsToPrometheusLabels (Labels d)
      in Inr [\<lparr>Name = descDeploymentLabelsName,
               LabelKeys = labelKeys,
               LabelValues = labelValues,
               Value = 1\<rparr>])"

fun wrapDeploymentRange :: "Deployment \<Rightarrow> Family \<Rightarrow> globals \<Rightarrow> Family \<times> globals" where
  "wrapDeploymentRange deployment [] g = ([], g)"
| "wrapDeploymentRange deployment (m # ms) g =
     (let (s, keys) = go_append (descDeploymentLabelsDefaultLabels g) (LabelKeys m);
          (_, vals) = go_append
                        (slice_literal [meta_Namespace deployment, meta_Name deployment])
                        (LabelValues m);
          (ms', g') = wrapDeploymentRange deployment ms
                        (g\<lparr>descDeploymentLabelsDefaultLabels := s\<rparr>)
      in (m\<lparr>LabelKeys := keys, LabelValues := vals\<rparr> # ms', g'))"

definition wrapDeploymentFunc ::
  "(Deployment \<Rightarrow> panic + Family) \<Rightarrow> globals \<Rightarrow> object \<Rightarrow> (panic + Family) \<times> globals" where
  "wrapDeploymentFunc f g obj =
     (case obj of
        DeploymentObject deployment \<Rightarrow>
          (case f deployment of
             Inl e \<Rightarrow> (Inl e, g)
           | Inr metricFamily \<Rightarrow>
               (let (metricFamily', g') = wrapDeploymentRange deployment metricFamily g
                in (Inr metricFamily', g')))
      | _ \<Rightarrow> (Inl TypeAssertionFailed, g))"

definition deploymentMetricFamilies :: "labelsFunc \<Rightarrow> FamilyGenerator list" where
  "deploymentMetricFamilies kubeLabelsToPrometheusLabels =
     [\<lparr>FamilyName = ''kube_deployment_created'',
       FamilyType = MetricTypeGauge,
       Help = ''Unix creation timestamp'',
       GenerateFunc = wrapDeploymentFunc kube_deployment_created\<rparr>,
      \<lparr>FamilyName = ''kube_deployment_status_replicas'',
       FamilyType = MetricTypeGauge,
       Help = ''The number of replicas per deployment.'',
       GenerateFunc = wrapDeploymentFunc kube_deployment_status_replicas\<rparr>,
      \<lparr>FamilyName = ''kube_deployment_status_replicas_available'',
       FamilyType = MetricTypeGauge,
       Help = ''The number of available replicas per deployment.'',
       GenerateFunc = wrapDeploymentFunc kube_deployment_status_replicas_available\<rparr>,
      \<lparr>FamilyName = ''kube_deployment_status_replicas_unavailable'',
       FamilyType = MetricTypeGauge,
       Help = ''The number of unavailable replicas per deployment.'',
       GenerateFunc = wrapDeploymentFunc kube_deployment_status_replicas_unavailable\<rparr>,
      \<lparr>FamilyName = ''kube_deployment_spec_replicas'',
       FamilyType = MetricTypeGauge,
       Help = ''Number of desired pods for a deployment.'',
       GenerateFunc = wrapDeploymentFunc kube_deployment_spec_replicas\<rparr>,
      \<lparr>FamilyName = descDeploymentLabelsName,
       FamilyType = MetricTypeGauge,
       Help = descDeploymentLabelsHelp,
       GenerateFunc =
         wrapDeploymentFunc (kube_deployment_labels kubeLabelsToPrometheusLabels)\<rparr>]"

section \<open>Namespace collector\<close>

definition kube_namespace_labels :: "labelsFunc \<Rightarrow> Namespace \<Rightarrow> panic + Family" where
  "kube_namespace_labels kubeLabelsToPrometheusLabels n =
     (let (labelKeys, labelValues) = kubeLabelsToPrometheusLabels (Labels n)
      in Inr [\<lparr>Name = descNamespaceLabelsName,
               LabelKeys = labelKeys,
               LabelValues = labelValues,
               Value = 1\<rparr>])"

definition kube_namespace_annotations :: "labelsFunc \<Rightarrow> Namespace \<Rightarrow> panic + Family" where
  "kube_namespace_annotations kubeAnnotationsToPrometheusAnnotations n =
     (let (annotationKeys, annotationValues) =
            kubeAnnotationsToPrometheusAnnotations (Annotations n)
      in Inr [\<lparr>Name = descNamespaceAnnotationsName,
               LabelKeys = annotationKeys,
               LabelValues = annotationValues,
               Value = 1\<rparr>])"

fun wrapNamespaceRange :: "Namespace \<Rightarrow> Family \<Rightarrow> globals \<Rightarrow> Family \<times> globals" where
  "wrapNamespaceRange namespace [] g = ([], g)"
| "wrapNamespaceRange namespace (m # ms) g =
     (let (s, keys) = go_append (descNamespaceLabelsDefaultLabels g) (LabelKeys m);
          (_, vals) = go_append (slice_literal [meta_Name namespace]) (LabelValues m);
          (ms', g') = wrapNamespaceRange namespace ms
                        (g\<lparr>descNamespaceLabelsDefaultLabels := s\<rparr>)
      in (m\<lparr>LabelKeys := keys, LabelValues := vals\<rparr> # ms', g'))"

definition wrapNamespaceFunc ::
  "(Namespace \<Rightarrow> panic + Family) \<Rightarrow> globals \<Rightarrow> object \<Rightarrow> (panic + Family) \<times> globals" where
  "wrapNamespaceFunc f g obj =
     (case obj of
        NamespaceObject namespace \<Rightarrow>
          (case f namespace of
             Inl e \<Rightarrow> (Inl e, g)
           | Inr metricFamily \<Rightarrow>
               (let (metricFamily', g') = wrapNamespaceRange namespace metricFamily g
                in (Inr metricFamily', g')))
      | _ \<Rightarrow> (Inl TypeAssertionFailed, g))"

definition namespaceMetricFamilies :: "labelsFunc \<Rightarrow> labelsFunc \<Rightarrow> FamilyGenerator list" where
  "namespaceMetricFamilies kubeLabelsToPrometheusLabels kubeAnnotationsToPrometheusAnnotations =
     [\<lparr>FamilyName = descNamespaceLabelsName,
       FamilyType = MetricTypeGauge,
       Help = descNamespaceLabelsHelp,
       GenerateFunc =
         wrapNamespaceFunc (kube_namespace_labels kubeLabelsToPrometheusLabels)\<rparr>,
      \<lparr>FamilyName = descNamespaceAnnotationsName,
       FamilyType = MetricTypeGauge,
       Help = descNamespaceAnnotationsHelp,
       GenerateFunc =
         wrapNamespaceFunc
           (kube_namespace_annotations kubeAnnotationsToPrometheusAnnotations)\<rparr>]"

section \<open>Objects for the worked instances\<close>

text \<open>
  A pod on a lost node that is pending deletion, a pod whose container is in a crash
  loop and that reports two Ready conditions, a pod with two owner references and
  no status yet, a deployment with neither creation timestamp nor desired replicas, a
  deployment with both, a namespace, and two label conversions.
\<close>

definition pod_node_lost :: Pod where
  "pod_node_lost =
     \<lparr>meta_Name = ''web-0'', meta_Namespace = ''default'', UID = ''uid-1'',
      CreationTimestamp = \<lparr>sec = 63650000000, nsec = 0\<rparr>,
      DeletionTimestamp = Some \<lparr>sec = 63650000100, nsec = 0\<rparr>,
      Labels = Map.empty, Annotations = Map.empty,
      OwnerReferences = [],
      pod_Spec = \<lparr>NodeName = ''node-1''\<rparr>,
      pod_Status =
        \<lparr>Phase = ''Running'',
         Conditions = [\<lparr>cond_Type = ''Ready'', cond_Status = ''False''\<rparr>,
                       \<lparr>cond_Type = ''PodScheduled'', cond_Status = ''True''\<rparr>],
         Reason = ''NodeLost'',
         HostIP = ''10.0.0.1'', PodIP = ''172.16.0.5'',
         ContainerStatuses =
           [\<lparr>container_Name = ''app'',
             State = \<lparr>Waiting = Some \<lparr>waiting_Reason = ''PodInitializing''\<rparr>,
                      Terminated = None\<rparr>,
             LastTerminationState = \<lparr>Waiting = None, Terminated = None\<rparr>\<rparr>]\<rparr>\<rparr>"

definition pod_crash_loop :: Pod where
  "pod_crash_loop =
     \<lparr>meta_Name = ''db-0'', meta_Namespace = ''default'', UID = ''uid-6'',
      CreationTimestamp = \<lparr>sec = 63650000000, nsec = 0\<rparr>,
      DeletionTimestamp = None,
      Labels = Map.empty, Annotations = Map.empty,
      OwnerReferences =
        [\<lparr>owner_Kind = ''StatefulSet'', owner_Name = ''db'', Controller = Some True\<rparr>],
      pod_Spec = \<lparr>NodeName = ''node-3''\<rparr>,
      pod_Status =
        \<lparr>Phase = ''Running'',
         Conditions = [\<lparr>cond_Type = ''Ready'', cond_Status = ''Unknown''\<rparr>,
                       \<lparr>cond_Type = ''Ready'', cond_Status = ''True''\<rparr>],
         Reason = [],
         HostIP = ''10.0.0.3'', PodIP = ''172.16.0.9'',
         ContainerStatuses =
           [\<lparr>container_Name = ''db'',
             State = \<lparr>Waiting = Some \<lparr>waiting_Reason = ''CrashLoopBackOff''\<rparr>,
                      Terminated = None\<rparr>,
             LastTerminationState = \<lparr>Waiting = None, Terminated = None\<rparr>\<rparr>]\<rparr>\<rparr>"

definition pod_two_owners :: Pod where
  "pod_two_owners =
     \<lparr>meta_Name = ''job-7'', meta_Namespace = ''batch'', UID = ''uid-2'',
      CreationTimestamp = \<lparr>sec = 63650000000, nsec = 0\<rparr>,
      DeletionTimestamp = None,
      Labels = Map.empty, Annotations = Map.empty,
      OwnerReferences =
        [\<lparr>owner_Kind = ''ConfigMap'', owner_Name = ''settings'', Controller = None\<rparr>,
         \<lparr>owner_Kind = ''Job'', owner_Name = '''', Controller = Some True\<rparr>],
      pod_Spec = \<lparr>NodeName = ''node-2''\<rparr>,
      pod_Status =
        \<lparr>Phase = '''', Conditions = [], Reason = '''', HostIP = '''', PodIP = '''',
         ContainerStatuses = []\<rparr>\<rparr>"

definition deployment_unset :: Deployment where
  "deployment_unset =
     \<lparr>meta_Name = ''api'', meta_Namespace = ''default'', UID = ''uid-3'',
      CreationTimestamp = \<lparr>sec = 0, nsec = 0\<rparr>,
      DeletionTimestamp = None,
      Labels = Map.empty, Annotations = Map.empty,
      OwnerReferences = [],
      deployment_Spec = \<lparr>spec_Replicas = None\<rparr>,
      deployment_Status =
        \<lparr>status_Replicas = 0, AvailableReplicas = 0, UnavailableReplicas = 0\<rparr>\<rparr>"

definition deployment_web :: Deployment where
  "deployment_web =
     \<lparr>meta_Name = ''web'', meta_Namespace = ''default'', UID = ''uid-4'',
      CreationTimestamp = \<lparr>sec = 63650000000, nsec = 0\<rparr>,
      DeletionTimestamp = None,
      Labels = [''app'' \<mapsto> ''web''], Annotations = Map.empty,
      OwnerReferences = [],
      deployment_Spec = \<lparr>spec_Replicas = Some 3\<rparr>,
      deployment_Status =
        \<lparr>status_Replicas = 3, AvailableReplicas = 2, UnavailableReplicas = 1\<rparr>\<rparr>"

definition namespace_default :: Namespace where
  "namespace_default =
     \<lparr>meta_Name = ''default'', meta_Namespace = '''', UID = ''uid-5'',
      CreationTimestamp = \<lparr>sec = 63650000000, nsec = 0\<rparr>,
      DeletionTimestamp = None,
      Labels = [''app'' \<mapsto> ''web''], Annotations = Map.empty,
      OwnerReferences = [],
      namespace_Phase = ''Active''\<rparr>"

definition labels_app_only :: labelsFunc where
  "labels_app_only labels =
     (case labels ''app'' of
        None \<Rightarrow> ([], [])
      | Some v \<Rightarrow> ([''label_app''], [v]))"

definition annotations_none :: labelsFunc where
  "annotations_none annotations = ([], [])"

section \<open>Properties of \<^verbatim>\<open>append\<close> and of the loops\<close>

lemma go_append_full:
  "len s = length (arr s) \<Longrightarrow> go_append s ys = (s, arr s @ ys)"
  by (cases "ys = []") (simp_all add: go_append_def cap_def elems_def)

lemma go_append_literal: "snd (go_append (slice_literal xs) ys) = xs @ ys"
  by (simp add: go_append_def slice_literal_def elems_def)

lemma foldl_append_single: "foldl (\<lambda>f x. f @ [h x]) f0 xs = f0 @ map h xs"
  by (induction xs arbitrary: f0) simp_all

lemma foldl_append_block: "foldl (\<lambda>f x. f @ h x) f0 xs = f0 @ concat (map h xs)"
  by (induction xs arbitrary: f0) simp_all

lemma wrapPodRange_full:
  "len (descPodLabelsDefaultLabels g) = length (arr (descPodLabelsDefaultLabels g)) \<Longrightarrow>
   wrapPodRange pod ms g =
     (map (\<lambda>m. m\<lparr>LabelKeys := arr (descPodLabelsDefaultLabels g) @ LabelKeys m,
                  LabelValues := [meta_Namespace pod, meta_Name pod] @ LabelValues m\<rparr>) ms, g)"
  by (induction ms) (simp_all add: go_append_full split_def go_append_literal)

lemma wrapDeploymentRange_full:
  "len (descDeploymentLabelsDefaultLabels g) =
     length (arr (descDeploymentLabelsDefaultLabels g)) \<Longrightarrow>
   wrapDeploymentRange d ms g =
     (map (\<lambda>m. m\<lparr>LabelKeys := arr (descDeploymentLabelsDefaultLabels g) @ LabelKeys m,
                  LabelValues := [meta_Namespace d, meta_Name d] @ LabelValues m\<rparr>) ms, g)"
  by (induction ms) (simp_all add: go_append_full split_def go_append_literal)

lemma wrapNamespaceRange_full:
  "len (descNamespaceLabelsDefaultLabels g) =
     length (arr (descNamespaceLabelsDefaultLabels g)) \<Longrightarrow>
   wrapNamespaceRange n ms g =
     (map (\<lambda>m. m\<lparr>LabelKeys := arr (descNamespaceLabelsDefaultLabels g) @ LabelKeys m,
                  LabelValues := [meta_Name n] @ LabelValues m\<rparr>) ms, g)"
  by (induction ms) (simp_all add: go_append_full split_def go_append_literal)

lemma wrapPodFunc_init:
  "f pod = Inr fam \<Longrightarrow>
   wrapPodFunc f init_globals (PodObject pod) =
     (Inr (map (\<lambda>m. m\<lparr>LabelKeys := [''namespace'', ''pod''] @ LabelKeys m,
                       LabelValues := [meta_Namespace pod, meta_Name pod] @ LabelValues m\<rparr>)
             fam),
      init_globals)"
  by (simp add: wrapPodFunc_def wrapPodRange_full init_globals_def slice_literal_def)

lemma wrapDeploymentFunc_init:
  "f d = Inr fam \<Longrightarrow>
   wrapDeploymentFunc f init_globals (DeploymentObject d) =
     (Inr (map (\<lambda>m. m\<lparr>LabelKeys := [''namespace'', ''deployment''] @ LabelKeys m,
                       LabelValues := [meta_Namespace d, meta_Name d] @ LabelValues m\<rparr>)
             fam),
      init_globals)"
  by (simp add: wrapDeploymentFunc_def wrapDeploymentRange_full init_globals_def
      slice_literal_def)

lemma wrapNamespaceFunc_init:
  "f n = Inr fam \<Longrightarrow>
   wrapNamespaceFunc f init_globals (NamespaceObject n) =
     (Inr (map (\<lambda>m. m\<lparr>LabelKeys := [''namespace''] @ LabelKeys m,
                       LabelValues := [meta_Name n] @ LabelValues m\<rparr>)
             fam),
      init_globals)"
  by (simp add: wrapNamespaceFunc_def wrapNamespaceRange_full init_globals_def
      slice_literal_def)

lemma wrapPodFunc_panic:
  "f pod = Inl e \<Longrightarrow> wrapPodFunc f g (PodObject pod) = (Inl e, g)"
  by (simp add: wrapPodFunc_def)

lemma wrapDeploymentFunc_panic:
  "f d = Inl e \<Longrightarrow> wrapDeploymentFunc f g (DeploymentObject d) = (Inl e, g)"
  by (simp add: wrapDeploymentFunc_def)

lemma wrapNamespaceFunc_panic:
  "f n = Inl e \<Longrightarrow> wrapNamespaceFunc f g (NamespaceObject n) = (Inl e, g)"
  by (simp add: wrapNamespaceFunc_def)

section \<open>What the inner generators return\<close>

lemma kube_pod_status_phase_family:
  "kube_pod_status_phase p =
     Inr (if Phase (pod_Status p) = [] then []
          else map (\<lambda>(v, n). \<lparr>Name = ''kube_pod_status_phase'', LabelKeys = [''phase''],
                              LabelValues = [n], Value = boolFloat64 v\<rparr>)
                 [(Phase (pod_Status p) = ''Pending'', ''Pending''),
                  (Phase (pod_Status p) = ''Succeeded'', ''Succeeded''),
                  (Phase (pod_Status p) = ''Failed'', ''Failed''),
                  (Phase (pod_Status p) = ''Running'' \<and>
                     \<not> (DeletionTimestamp p \<noteq> None \<and>
                        Reason (pod_Status p) = NodeUnreachablePodReason),
                   ''Running''),
                  (Phase (pod_Status p) = ''Unknown'' \<or>
                     (DeletionTimestamp p \<noteq> None \<and>
                      Reason (pod_Status p) = NodeUnreachablePodReason),
                   ''Unknown'')])"
  by (simp add: kube_pod_status_phase_def Let_def PodPending_def PodSucceeded_def
      PodFailed_def PodRunning_def PodUnknown_def)

lemma kube_pod_container_status_waiting_reason_family:
  "kube_pod_container_status_waiting_reason p =
     Inr (concat (map (\<lambda>cs.
            map (\<lambda>reason.
                  \<lparr>Name = ''kube_pod_container_status_waiting_reason'',
                   LabelKeys = [''container'', ''reason''],
                   LabelValues = [container_Name cs, reason],
                   Value = boolFloat64 (waitingReason cs reason)\<rparr>)
              containerWaitingReasons)
          (ContainerStatuses (pod_Status p))))"
proof -
  have inner: "\<And>f cs. foldl (\<lambda>f reason.
                   f @ [\<lparr>Name = ''kube_pod_container_status_waiting_reason'',
                          LabelKeys = [''container'', ''reason''],
                          LabelValues = [container_Name cs, reason],
                          Value = boolFloat64 (waitingReason cs reason)\<rparr>])
                f containerWaitingReasons =
        f @ map (\<lambda>reason.
                  \<lparr>Name = ''kube_pod_container_status_waiting_reason'',
                   LabelKeys = [''container'', ''reason''],
                   LabelValues = [container_Name cs, reason],
                   Value = boolFloat64 (waitingReason cs reason)\<rparr>)
              containerWaitingReasons"
    by (rule foldl_append_single)
  show ?thesis
    unfolding kube_pod_container_status_waiting_reason_def Let_def inner
    by (simp add: foldl_append_block)
qed

lemma boolFloat64_waitingReason:
  "boolFloat64 (waitingReason cs reason) =
     (if \<exists>w. Waiting (State cs) = Some w \<and> waiting_Reason w = reason then 1 else 0)"
  by (simp add: boolFloat64_def waitingReason_def split: option.splits)

lemma kube_pod_owner_family:
  "kube_pod_owner p =
     Inr (if OwnerReferences p = []
          then [\<lparr>Name = ''kube_pod_owner'',
                 LabelKeys = [''owner_kind'', ''owner_name'', ''owner_is_controller''],
                 LabelValues = [''<none>'', ''<none>'', ''<none>''], Value = 1\<rparr>]
          else map (\<lambda>owner.
                 \<lparr>Name = ''kube_pod_owner'',
                  LabelKeys = [''owner_kind'', ''owner_name'', ''owner_is_controller''],
                  LabelValues = [owner_Kind owner, owner_Name owner,
                                 if Controller owner = Some True then ''true'' else ''false''],
                  Value = 1\<rparr>)
               (OwnerReferences p))"
proof -
  have step: "(\<lambda>f owner.
                   (case Controller owner of
                      Some c \<Rightarrow>
                        f @ [\<lparr>Name = ''kube_pod_owner'',
                               LabelKeys = [''owner_kind'', ''owner_name'', ''owner_is_controller''],
                               LabelValues = [owner_Kind owner, owner_Name owner, FormatBool c],
                               Value = 1\<rparr>]
                    | None \<Rightarrow>
                        f @ [\<lparr>Name = ''kube_pod_owner'',
                               LabelKeys = [''owner_kind'', ''owner_name'', ''owner_is_controller''],
                               LabelValues = [owner_Kind owner, owner_Name owner, ''false''],
                               Value = 1\<rparr>])) =
        (\<lambda>f owner. f @ [\<lparr>Name = ''kube_pod_owner'',
                  LabelKeys = [''owner_kind'', ''owner_name'', ''owner_is_controller''],
                  LabelValues = [owner_Kind owner, owner_Name owner,
                                 if Controller owner = Some True then ''true'' else ''false''],
                  Value = 1::real\<rparr>])"
    by (intro ext) (simp add: FormatBool_def split: option.splits)
  show ?thesis
    unfolding kube_pod_owner_def Let_def step foldl_append_single
    by simp
qed

lemma GetControllerOf_None:
  "\<forall>ref \<in> set refs. Controller ref \<noteq> Some True \<Longrightarrow> GetControllerOf refs = None"
  by (simp add: GetControllerOf_def find_None_iff)

lemma GetControllerOf_first:
  "\<forall>r \<in> set pre. Controller r \<noteq> Some True \<Longrightarrow> Controller ref = Some True \<Longrightarrow>
   GetControllerOf (pre @ ref # post) = Some ref"
  unfolding GetControllerOf_def by (induction pre) simp_all

lemma condition_loop:
  "foldl (\<lambda>f c. if cond_Type c = ty
                 then let ms = addConditionMetrics (cond_Status c)
                      in foldl (\<lambda>f m. f @ [m\<lparr>Name := nm, LabelKeys := [''condition'']\<rparr>]) f ms
                 else f)
     f0 cs =
   f0 @ concat (map (\<lambda>c. map (\<lambda>m. m\<lparr>Name := nm, LabelKeys := [''condition'']\<rparr>)
                              (addConditionMetrics (cond_Status c)))
                 (filter (\<lambda>c. cond_Type c = ty) cs))"
  by (induction cs arbitrary: f0) (simp_all add: foldl_append_single)

lemma kube_pod_status_ready_family:
  "kube_pod_status_ready p =
     Inr (concat (map (\<lambda>c. map (\<lambda>m. m\<lparr>Name := ''kube_pod_status_ready'',
                                       LabelKeys := [''condition'']\<rparr>)
                              (addConditionMetrics (cond_Status c)))
                 (filter (\<lambda>c. cond_Type c = ''Ready'') (Conditions (pod_Status p)))))"
  by (simp add: kube_pod_status_ready_def condition_loop PodReady_def)

lemma kube_pod_status_scheduled_family:
  "kube_pod_status_scheduled p =
     Inr (concat (map (\<lambda>c. map (\<lambda>m. m\<lparr>Name := ''kube_pod_status_scheduled'',
                                       LabelKeys := [''condition'']\<rparr>)
                              (addConditionMetrics (cond_Status c)))
                 (filter (\<lambda>c. cond_Type c = ''PodScheduled'') (Conditions (pod_Status p)))))"
  by (simp add: kube_pod_status_scheduled_def condition_loop PodScheduled_def)

lemma condition_block:
  "map (\<lambda>m. m\<lparr>Name := nm, LabelKeys := [''namespace'', ''pod'', ''condition''],
               LabelValues := ns # n # LabelValues m\<rparr>)
     (addConditionMetrics s) =
   [\<lparr>Name = nm, LabelKeys = [''namespace'', ''pod'', ''condition''],
     LabelValues = [ns, n, ''true''], Value = (if s = ''True'' then 1 else 0)\<rparr>,
    \<lparr>Name = nm, LabelKeys = [''namespace'', ''pod'', ''condition''],
     LabelValues = [ns, n, ''false''], Value = (if s = ''False'' then 1 else 0)\<rparr>,
    \<lparr>Name = nm, LabelKeys = [''namespace'', ''pod'', ''condition''],
     LabelValues = [ns, n, ''unknown''], Value = (if s = ''Unknown'' then 1 else 0)\<rparr>]"
  by (simp add: addConditionMetrics_def Metric0_def boolFloat64_def ConditionTrue_def
      ConditionFalse_def ConditionUnknown_def)

lemma wrapped_condition_family:
  assumes fam: "gen p =
     Inr (concat (map (\<lambda>c. map (\<lambda>m. m\<lparr>Name := nm, LabelKeys := [''condition'']\<rparr>)
                              (addConditionMetrics (cond_Status c)))
                 (filter (\<lambda>c. cond_Type c = ty) (Conditions (pod_Status p)))))"
  shows "wrapPodFunc gen init_globals (PodObject p) =
     (Inr (concat (map (\<lambda>c.
        [\<lparr>Name = nm, LabelKeys = [''namespace'', ''pod'', ''condition''],
          LabelValues = [meta_Namespace p, meta_Name p, ''true''],
          Value = (if cond_Status c = ''True'' then 1 else 0)\<rparr>,
         \<lparr>Name = nm, LabelKeys = [''namespace'', ''pod'', ''condition''],
          LabelValues = [meta_Namespace p, meta_Name p, ''false''],
          Value = (if cond_Status c = ''False'' then 1 else 0)\<rparr>,
         \<lparr>Name = nm, LabelKeys = [''namespace'', ''pod'', ''condition''],
          LabelValues = [meta_Namespace p, meta_Name p, ''unknown''],
          Value = (if cond_Status c = ''Unknown'' then 1 else 0)\<rparr>])
        (filter (\<lambda>c. cond_Type c = ty) (Conditions (pod_Status p))))),
      init_globals)"
  by (simp add: wrapPodFunc_init [of gen p, OF fam] map_concat comp_def condition_block)

lemma length_condition_blocks:
  "length (concat (map (\<lambda>c. [a c, b c, d c]) xs)) = 3 * length xs"
  by (induction xs) simp_all

section \<open>The registered generators\<close>

lemma pod_registered:
  "gen \<in> set podMetricFamilies \<Longrightarrow>
   \<exists>f \<in> {kube_pod_info, kube_pod_owner, kube_pod_status_phase, kube_pod_status_ready,
          kube_pod_status_scheduled, kube_pod_container_status_waiting_reason}.
     GenerateFunc gen = wrapPodFunc f"
  by (auto simp: podMetricFamilies_def)

lemma deployment_registered:
  "gen \<in> set (deploymentMetricFamilies kl) \<Longrightarrow>
   \<exists>f \<in> {kube_deployment_created, kube_deployment_status_replicas,
          kube_deployment_status_replicas_available,
          kube_deployment_status_replicas_unavailable, kube_deployment_spec_replicas,
          kube_deployment_labels kl}.
     GenerateFunc gen = wrapDeploymentFunc f"
  by (auto simp: deploymentMetricFamilies_def)

lemma namespace_registered:
  "gen \<in> set (namespaceMetricFamilies kl ka) \<Longrightarrow>
   \<exists>f \<in> {kube_namespace_labels kl, kube_namespace_annotations ka}.
     GenerateFunc gen = wrapNamespaceFunc f"
  by (auto simp: namespaceMetricFamilies_def)

section \<open>Label keys and label values pair up\<close>

lemma pod_inner_paired:
  assumes "f \<in> {kube_pod_info, kube_pod_owner, kube_pod_status_phase, kube_pod_status_ready,
          kube_pod_status_scheduled, kube_pod_container_status_waiting_reason}"
    and "f p = Inr fam" and "m \<in> set fam"
  shows "length (LabelKeys m) = length (LabelValues m)"
proof -
  have info: "kube_pod_info p = Inr fam \<Longrightarrow> ?thesis"
    using assms(3) by (auto simp: kube_pod_info_def Let_def)
  have owner: "kube_pod_owner p = Inr fam \<Longrightarrow> ?thesis"
    using assms(3) by (auto simp: kube_pod_owner_family split: if_splits)
  have phase: "kube_pod_status_phase p = Inr fam \<Longrightarrow> ?thesis"
    using assms(3) by (auto simp: kube_pod_status_phase_family split: if_splits)
  have ready: "kube_pod_status_ready p = Inr fam \<Longrightarrow> ?thesis"
    using assms(3)
    by (auto simp: kube_pod_status_ready_family addConditionMetrics_def Metric0_def)
  have scheduled: "kube_pod_status_scheduled p = Inr fam \<Longrightarrow> ?thesis"
    using assms(3)
    by (auto simp: kube_pod_status_scheduled_family addConditionMetrics_def Metric0_def)
  have waiting: "kube_pod_container_status_waiting_reason p = Inr fam \<Longrightarrow> ?thesis"
    using assms(3) by (auto simp: kube_pod_container_status_waiting_reason_family)
  from assms(1,2) info owner phase ready scheduled waiting show ?thesis
    by blast
qed

lemma deployment_inner_paired:
  assumes kl: "\<forall>labels. length (fst (kl labels)) = length (snd (kl labels))"
    and "f \<in> {kube_deployment_created, kube_deployment_status_replicas,
          kube_deployment_status_replicas_available,
          kube_deployment_status_replicas_unavailable, kube_deployment_spec_replicas,
          kube_deployment_labels kl}"
    and "f d = Inr fam" and "m \<in> set fam"
  shows "length (LabelKeys m) = length (LabelValues m)"
proof -
  have created: "kube_deployment_created d = Inr fam \<Longrightarrow> ?thesis"
    using assms(4) by (auto simp: kube_deployment_created_def Metric0_def split: if_splits)
  have replicas: "kube_deployment_status_replicas d = Inr fam \<Longrightarrow> ?thesis"
    using assms(4) by (auto simp: kube_deployment_status_replicas_def Metric0_def)
  have available: "kube_deployment_status_replicas_available d = Inr fam \<Longrightarrow> ?thesis"
    using assms(4) by (auto simp: kube_deployment_status_replicas_available_def Metric0_def)
  have unavailable: "kube_deployment_status_replicas_unavailable d = Inr fam \<Longrightarrow> ?thesis"
    using assms(4) by (auto simp: kube_deployment_status_replicas_unavailable_def Metric0_def)
  have spec: "kube_deployment_spec_replicas d = Inr fam \<Longrightarrow> ?thesis"
    using assms(4)
    by (auto simp: kube_deployment_spec_replicas_def Metric0_def split: option.splits)
  have labels: "kube_deployment_labels kl d = Inr fam \<Longrightarrow> ?thesis"
    using assms(4) kl [rule_format, of "Labels d"]
    by (auto simp: kube_deployment_labels_def split_def Let_def)
  from assms(2,3) created replicas available unavailable spec labels show ?thesis
    by blast
qed

lemma namespace_inner_paired:
  assumes kl: "\<forall>labels. length (fst (kl labels)) = length (snd (kl labels))"
    and ka: "\<forall>annotations. length (fst (ka annotations)) = length (snd (ka annotations))"
    and "f \<in> {kube_namespace_labels kl, kube_namespace_annotations ka}"
    and "f n = Inr fam" and "m \<in> set fam"
  shows "length (LabelKeys m) = length (LabelValues m)"
proof -
  have labels: "kube_namespace_labels kl n = Inr fam \<Longrightarrow> ?thesis"
    using assms(5) kl [rule_format, of "Labels n"]
    by (auto simp: kube_namespace_labels_def split_def Let_def)
  have annotations: "kube_namespace_annotations ka n = Inr fam \<Longrightarrow> ?thesis"
    using assms(5) ka [rule_format, of "Annotations n"]
    by (auto simp: kube_namespace_annotations_def split_def Let_def)
  from assms(3,4) labels annotations show ?thesis
    by blast
qed

lemma wrapPodFunc_paired:
  assumes inner: "\<And>p fam m. f p = Inr fam \<Longrightarrow> m \<in> set fam \<Longrightarrow>
                    length (LabelKeys m) = length (LabelValues m)"
    and out: "wrapPodFunc f init_globals obj = (Inr fam', g)" and m: "m \<in> set fam'"
  shows "length (LabelKeys m) = length (LabelValues m)"
proof (cases obj)
  case (PodObject p)
  show ?thesis
  proof (cases "f p")
    case (Inl e)
    with out PodObject show ?thesis by (simp add: wrapPodFunc_panic)
  next
    case (Inr fam)
    from out m inner [OF Inr] show ?thesis
      unfolding PodObject wrapPodFunc_init [of f p, OF Inr] by auto
  qed
qed (use out in \<open>simp_all add: wrapPodFunc_def\<close>)

lemma wrapDeploymentFunc_paired:
  assumes inner: "\<And>d fam m. f d = Inr fam \<Longrightarrow> m \<in> set fam \<Longrightarrow>
                    length (LabelKeys m) = length (LabelValues m)"
    and out: "wrapDeploymentFunc f init_globals obj = (Inr fam', g)" and m: "m \<in> set fam'"
  shows "length (LabelKeys m) = length (LabelValues m)"
proof (cases obj)
  case (DeploymentObject d)
  show ?thesis
  proof (cases "f d")
    case (Inl e)
    with out DeploymentObject show ?thesis by (simp add: wrapDeploymentFunc_panic)
  next
    case (Inr fam)
    from out m inner [OF Inr] show ?thesis
      unfolding DeploymentObject wrapDeploymentFunc_init [of f d, OF Inr] by auto
  qed
qed (use out in \<open>simp_all add: wrapDeploymentFunc_def\<close>)

lemma wrapNamespaceFunc_paired:
  assumes inner: "\<And>n fam m. f n = Inr fam \<Longrightarrow> m \<in> set fam \<Longrightarrow>
                    length (LabelKeys m) = length (LabelValues m)"
    and out: "wrapNamespaceFunc f init_globals obj = (Inr fam', g)" and m: "m \<in> set fam'"
  shows "length (LabelKeys m) = length (LabelValues m)"
proof (cases obj)
  case (NamespaceObject n)
  show ?thesis
  proof (cases "f n")
    case (Inl e)
    with out NamespaceObject show ?thesis by (simp add: wrapNamespaceFunc_panic)
  next
    case (Inr fam)
    from out m inner [OF Inr] show ?thesis
      unfolding NamespaceObject wrapNamespaceFunc_init [of f n, OF Inr] by auto
  qed
qed (use out in \<open>simp_all add: wrapNamespaceFunc_def\<close>)

section \<open>The package state after a call\<close>







text \<open>
  With spare capacity \<^verbatim>\<open>append\<close> does write the array of its operand; the slice literals
  of the package have none.
\<close>

lemma go_append_spare_capacity:
  "go_append \<lparr>arr = [''namespace'', ''pod'', []], len = 2\<rparr> [''phase''] =
     (\<lparr>arr = [''namespace'', ''pod'', ''phase''], len = 2\<rparr>, [''namespace'', ''pod'', ''phase''])"
  by (simp add: go_append_def cap_def elems_def)

section \<open>The claims\<close>

text \<open>
  C1. A pod whose phase field is \<^verbatim>\<open>Running\<close>, whose deletion timestamp is set and whose
  status reason is the unreachable-node reason yields the five samples of
  \<^verbatim>\<open>kube_pod_status_phase\<close> (Pending, Succeeded, Failed, Running, Unknown) with only the
  \<^verbatim>\<open>Unknown\<close> sample at 1 and the others, \<^verbatim>\<open>Running\<close> too, at 0.
\<close>

theorem pod_phase_unreachable_node_is_unknown:
  assumes "Phase (pod_Status p) = ''Running''"
    and "DeletionTimestamp p \<noteq> None"
    and "Reason (pod_Status p) = NodeUnreachablePodReason"
  shows "wrapPodFunc kube_pod_status_phase init_globals (PodObject p) =
     (Inr [\<lparr>Name = ''kube_pod_status_phase'',
            LabelKeys = [''namespace'', ''pod'', ''phase''],
            LabelValues = [meta_Namespace p, meta_Name p, ''Pending''], Value = 0\<rparr>,
           \<lparr>Name = ''kube_pod_status_phase'',
            LabelKeys = [''namespace'', ''pod'', ''phase''],
            LabelValues = [meta_Namespace p, meta_Name p, ''Succeeded''], Value = 0\<rparr>,
           \<lparr>Name = ''kube_pod_status_phase'',
            LabelKeys = [''namespace'', ''pod'', ''phase''],
            LabelValues = [meta_Namespace p, meta_Name p, ''Failed''], Value = 0\<rparr>,
           \<lparr>Name = ''kube_pod_status_phase'',
            LabelKeys = [''namespace'', ''pod'', ''phase''],
            LabelValues = [meta_Namespace p, meta_Name p, ''Running''], Value = 0\<rparr>,
           \<lparr>Name = ''kube_pod_status_phase'',
            LabelKeys = [''namespace'', ''pod'', ''phase''],
            LabelValues = [meta_Namespace p, meta_Name p, ''Unknown''], Value = 1\<rparr>],
      init_globals)"
proof -
  have "kube_pod_status_phase p =
     Inr [\<lparr>Name = ''kube_pod_status_phase'', LabelKeys = [''phase''],
            LabelValues = [''Pending''], Value = 0\<rparr>,
          \<lparr>Name = ''kube_pod_status_phase'', LabelKeys = [''phase''],
            LabelValues = [''Succeeded''], Value = 0\<rparr>,
          \<lparr>Name = ''kube_pod_status_phase'', LabelKeys = [''phase''],
            LabelValues = [''Failed''], Value = 0\<rparr>,
          \<lparr>Name = ''kube_pod_status_phase'', LabelKeys = [''phase''],
            LabelValues = [''Running''], Value = 0\<rparr>,
          \<lparr>Name = ''kube_pod_status_phase'', LabelKeys = [''phase''],
            LabelValues = [''Unknown''], Value = 1\<rparr>]"
    using assms by (simp add: kube_pod_status_phase_family boolFloat64_def)
  then show ?thesis
    by (simp add: wrapPodFunc_init)
qed

theorem pod_phase_unreachable_node_is_unknown_witness:
  "Phase (pod_Status pod_node_lost) = ''Running'' \<and>
   DeletionTimestamp pod_node_lost \<noteq> None \<and>
   Reason (pod_Status pod_node_lost) = NodeUnreachablePodReason \<and>
   wrapPodFunc kube_pod_status_phase init_globals (PodObject pod_node_lost) =
     (Inr [\<lparr>Name = ''kube_pod_status_phase'',
            LabelKeys = [''namespace'', ''pod'', ''phase''],
            LabelValues = [''default'', ''web-0'', ''Pending''], Value = 0\<rparr>,
           \<lparr>Name = ''kube_pod_status_phase'',
            LabelKeys = [''namespace'', ''pod'', ''phase''],
            LabelValues = [''default'', ''web-0'', ''Succeeded''], Value = 0\<rparr>,
           \<lparr>Name = ''kube_pod_status_phase'',
            LabelKeys = [''namespace'', ''pod'', ''phase''],
            LabelValues = [''default'', ''web-0'', ''Failed''], Value = 0\<rparr>,
           \<lparr>Name = ''kube_pod_status_phase'',
            LabelKeys = [''namespace'', ''pod'', ''phase''],
            LabelValues = [''default'', ''web-0'', ''Running''], Value = 0\<rparr>,
           \<lparr>Name = ''kube_pod_status_phase'',
            LabelKeys = [''namespace'', ''pod'', ''phase''],
            LabelValues = [''default'', ''web-0'', ''Unknown''], Value = 1\<rparr>],
      init_globals)"
proof -
  have h1: "Phase (pod_Status pod_node_lost) = ''Running''"
    by (simp add: pod_node_lost_def)
  have h2: "DeletionTimestamp pod_node_lost \<noteq> None"
    by (simp add: pod_node_lost_def)
  have h3: "Reason (pod_Status pod_node_lost) = NodeUnreachablePodReason"
    by (simp add: pod_node_lost_def NodeUnreachablePodReason_def)
  have names: "meta_Namespace pod_node_lost = ''default''" "meta_Name pod_node_lost = ''web-0''"
    by (simp_all add: pod_node_lost_def)
  show ?thesis
    using pod_phase_unreachable_node_is_unknown [OF h1 h2 h3] h1 h2 h3
    by (simp add: names)
qed

text \<open>
  C2. For a pod, a deployment and a namespace, every metric of the wrapped generator has
  the default labels of its kind first in its label keys, in the declared order, and the
  namespace and name of the object (the name alone for a namespace) first in its label
  values, followed by the keys and values of the inner generator. The registered
  generators are the wrapped inner generators.
\<close>

theorem default_labels_come_first:
  "(\<forall>fam. f p = Inr fam \<longrightarrow>
      wrapPodFunc f init_globals (PodObject p) =
        (Inr (map (\<lambda>m. m\<lparr>LabelKeys := [''namespace'', ''pod''] @ LabelKeys m,
                          LabelValues := [meta_Namespace p, meta_Name p] @ LabelValues m\<rparr>)
                fam),
         init_globals)) \<and>
   (\<forall>fam. f' d = Inr fam \<longrightarrow>
      wrapDeploymentFunc f' init_globals (DeploymentObject d) =
        (Inr (map (\<lambda>m. m\<lparr>LabelKeys := [''namespace'', ''deployment''] @ LabelKeys m,
                          LabelValues := [meta_Namespace d, meta_Name d] @ LabelValues m\<rparr>)
                fam),
         init_globals)) \<and>
   (\<forall>fam. f'' n = Inr fam \<longrightarrow>
      wrapNamespaceFunc f'' init_globals (NamespaceObject n) =
        (Inr (map (\<lambda>m. m\<lparr>LabelKeys := [''namespace''] @ LabelKeys m,
                          LabelValues := [meta_Name n] @ LabelValues m\<rparr>)
                fam),
         init_globals)) \<and>
   map GenerateFunc podMetricFamilies =
     map wrapPodFunc
       [kube_pod_info, kube_pod_owner, kube_pod_status_phase, kube_pod_status_ready,
        kube_pod_status_scheduled, kube_pod_container_status_waiting_reason] \<and>
   map GenerateFunc (deploymentMetricFamilies kl) =
     map wrapDeploymentFunc
       [kube_deployment_created, kube_deployment_status_replicas,
        kube_deployment_status_replicas_available,
        kube_deployment_status_replicas_unavailable, kube_deployment_spec_replicas,
        kube_deployment_labels kl] \<and>
   map GenerateFunc (namespaceMetricFamilies kl ka) =
     map wrapNamespaceFunc [kube_namespace_labels kl, kube_namespace_annotations ka]"
  by (simp add: wrapPodFunc_init wrapDeploymentFunc_init wrapNamespaceFunc_init
      podMetricFamilies_def deploymentMetricFamilies_def namespaceMetricFamilies_def)

theorem default_labels_come_first_witness:
  "kube_pod_owner pod_two_owners =
     Inr [\<lparr>Name = ''kube_pod_owner'',
           LabelKeys = [''owner_kind'', ''owner_name'', ''owner_is_controller''],
           LabelValues = [''ConfigMap'', ''settings'', ''false''], Value = 1\<rparr>,
          \<lparr>Name = ''kube_pod_owner'',
           LabelKeys = [''owner_kind'', ''owner_name'', ''owner_is_controller''],
           LabelValues = [''Job'', [], ''true''], Value = 1\<rparr>] \<and>
   wrapPodFunc kube_pod_owner init_globals (PodObject pod_two_owners) =
     (Inr [\<lparr>Name = ''kube_pod_owner'',
            LabelKeys = [''namespace'', ''pod'', ''owner_kind'', ''owner_name'',
                         ''owner_is_controller''],
            LabelValues = [''batch'', ''job-7'', ''ConfigMap'', ''settings'', ''false''],
            Value = 1\<rparr>,
           \<lparr>Name = ''kube_pod_owner'',
            LabelKeys = [''namespace'', ''pod'', ''owner_kind'', ''owner_name'',
                         ''owner_is_controller''],
            LabelValues = [''batch'', ''job-7'', ''Job'', [], ''true''],
            Value = 1\<rparr>],
      init_globals) \<and>
   kube_deployment_labels labels_app_only deployment_web =
     Inr [\<lparr>Name = ''kube_deployment_labels'', LabelKeys = [''label_app''],
           LabelValues = [''web''], Value = 1\<rparr>] \<and>
   wrapDeploymentFunc (kube_deployment_labels labels_app_only) init_globals
       (DeploymentObject deployment_web) =
     (Inr [\<lparr>Name = ''kube_deployment_labels'',
            LabelKeys = [''namespace'', ''deployment'', ''label_app''],
            LabelValues = [''default'', ''web'', ''web''], Value = 1\<rparr>],
      init_globals) \<and>
   kube_namespace_labels labels_app_only namespace_default =
     Inr [\<lparr>Name = ''kube_namespace_labels'', LabelKeys = [''label_app''],
           LabelValues = [''web''], Value = 1\<rparr>] \<and>
   wrapNamespaceFunc (kube_namespace_labels labels_app_only) init_globals
       (NamespaceObject namespace_default) =
     (Inr [\<lparr>Name = ''kube_namespace_labels'',
            LabelKeys = [''namespace'', ''label_app''],
            LabelValues = [''default'', ''web''], Value = 1\<rparr>],
      init_globals)"
proof -
  have pod: "kube_pod_owner pod_two_owners =
     Inr [\<lparr>Name = ''kube_pod_owner'',
           LabelKeys = [''owner_kind'', ''owner_name'', ''owner_is_controller''],
           LabelValues = [''ConfigMap'', ''settings'', ''false''], Value = 1\<rparr>,
          \<lparr>Name = ''kube_pod_owner'',
           LabelKeys = [''owner_kind'', ''owner_name'', ''owner_is_controller''],
           LabelValues = [''Job'', [], ''true''], Value = 1\<rparr>]"
    by (simp add: kube_pod_owner_def Let_def pod_two_owners_def FormatBool_def)
  have dep: "kube_deployment_labels labels_app_only deployment_web =
     Inr [\<lparr>Name = ''kube_deployment_labels'', LabelKeys = [''label_app''],
           LabelValues = [''web''], Value = 1\<rparr>]"
    by (simp add: kube_deployment_labels_def labels_app_only_def deployment_web_def
        descDeploymentLabelsName_def)
  have ns: "kube_namespace_labels labels_app_only namespace_default =
     Inr [\<lparr>Name = ''kube_namespace_labels'', LabelKeys = [''label_app''],
           LabelValues = [''web''], Value = 1\<rparr>]"
    by (simp add: kube_namespace_labels_def labels_app_only_def namespace_default_def
        descNamespaceLabelsName_def)
  have names:
    "meta_Namespace pod_two_owners = ''batch''" "meta_Name pod_two_owners = ''job-7''"
    "meta_Namespace deployment_web = ''default''" "meta_Name deployment_web = ''web''"
    "meta_Name namespace_default = ''default''"
    by (simp_all add: pod_two_owners_def deployment_web_def namespace_default_def)
  note all = default_labels_come_first
    [of kube_pod_owner pod_two_owners "kube_deployment_labels labels_app_only"
      deployment_web "kube_namespace_labels labels_app_only" namespace_default]
  from all pod have 1:
    "wrapPodFunc kube_pod_owner init_globals (PodObject pod_two_owners) =
     (Inr [\<lparr>Name = ''kube_pod_owner'',
            LabelKeys = [''namespace'', ''pod'', ''owner_kind'', ''owner_name'',
                         ''owner_is_controller''],
            LabelValues = [''batch'', ''job-7'', ''ConfigMap'', ''settings'', ''false''],
            Value = 1\<rparr>,
           \<lparr>Name = ''kube_pod_owner'',
            LabelKeys = [''namespace'', ''pod'', ''owner_kind'', ''owner_name'',
                         ''owner_is_controller''],
            LabelValues = [''batch'', ''job-7'', ''Job'', [], ''true''],
            Value = 1\<rparr>],
      init_globals)"
    by (simp add: names)
  from all dep have 2:
    "wrapDeploymentFunc (kube_deployment_labels labels_app_only) init_globals
       (DeploymentObject deployment_web) =
     (Inr [\<lparr>Name = ''kube_deployment_labels'',
            LabelKeys = [''namespace'', ''deployment'', ''label_app''],
            LabelValues = [''default'', ''web'', ''web''], Value = 1\<rparr>],
      init_globals)"
    by (simp add: names)
  from all ns have 3:
    "wrapNamespaceFunc (kube_namespace_labels labels_app_only) init_globals
       (NamespaceObject namespace_default) =
     (Inr [\<lparr>Name = ''kube_namespace_labels'',
            LabelKeys = [''namespace'', ''label_app''],
            LabelValues = [''default'', ''web''], Value = 1\<rparr>],
      init_globals)"
    by (simp add: names)
  from pod dep ns 1 2 3 show ?thesis by simp
qed

text \<open>
  C3. A deployment with a zero creation timestamp yields no \<^verbatim>\<open>kube_deployment_created\<close>
  sample and a pod with an empty phase yields no \<^verbatim>\<open>kube_pod_status_phase\<close> sample;
  where the inner generator returns an empty family, so does the wrapper.
\<close>

theorem missing_field_yields_no_sample:
  "(IsZero (CreationTimestamp d) \<longrightarrow>
      kube_deployment_created d = Inr [] \<and>
      wrapDeploymentFunc kube_deployment_created init_globals (DeploymentObject d) =
        (Inr [], init_globals)) \<and>
   (Phase (pod_Status p) = [] \<longrightarrow>
      kube_pod_status_phase p = Inr [] \<and>
      wrapPodFunc kube_pod_status_phase init_globals (PodObject p) =
        (Inr [], init_globals)) \<and>
   (f p' = Inr [] \<longrightarrow> wrapPodFunc f g (PodObject p') = (Inr [], g)) \<and>
   (f' d' = Inr [] \<longrightarrow> wrapDeploymentFunc f' g (DeploymentObject d') = (Inr [], g)) \<and>
   (f'' n' = Inr [] \<longrightarrow> wrapNamespaceFunc f'' g (NamespaceObject n') = (Inr [], g))"
  by (simp add: kube_deployment_created_def kube_pod_status_phase_family
      wrapDeploymentFunc_def wrapPodFunc_def wrapNamespaceFunc_def)

theorem missing_field_yields_no_sample_witness:
  "IsZero (CreationTimestamp deployment_unset) \<and>
   kube_deployment_created deployment_unset = Inr [] \<and>
   wrapDeploymentFunc kube_deployment_created init_globals
       (DeploymentObject deployment_unset) = (Inr [], init_globals) \<and>
   Phase (pod_Status pod_two_owners) = [] \<and>
   kube_pod_status_phase pod_two_owners = Inr [] \<and>
   wrapPodFunc kube_pod_status_phase init_globals (PodObject pod_two_owners) =
     (Inr [], init_globals) \<and>
   kube_pod_status_ready pod_two_owners = Inr [] \<and>
   wrapPodFunc kube_pod_status_ready init_globals (PodObject pod_two_owners) =
     (Inr [], init_globals)"
proof -
  have h1: "IsZero (CreationTimestamp deployment_unset)"
    by (simp add: IsZero_def deployment_unset_def)
  have h2: "Phase (pod_Status pod_two_owners) = []"
    by (simp add: pod_two_owners_def)
  have h3: "kube_pod_status_ready pod_two_owners = Inr []"
    by (simp add: kube_pod_status_ready_def pod_two_owners_def)
  show ?thesis
    using missing_field_yields_no_sample
      [of deployment_unset pod_two_owners kube_pod_status_ready pod_two_owners init_globals]
      h1 h2 h3
    by simp
qed

text \<open>
  C4. For every container status of a pod, \<^verbatim>\<open>kube_pod_container_status_waiting_reason\<close>
  emits one sample per reason of the fixed list, in order, valued 1 exactly when the
  container has a waiting state whose reason is that label. A container that is not
  waiting, or waits for a reason outside the list, has its five samples at 0.
\<close>

theorem waiting_reason_samples:
  "wrapPodFunc kube_pod_container_status_waiting_reason init_globals (PodObject p) =
     (Inr (concat (map (\<lambda>cs.
             map (\<lambda>reason.
                   \<lparr>Name = ''kube_pod_container_status_waiting_reason'',
                    LabelKeys = [''namespace'', ''pod'', ''container'', ''reason''],
                    LabelValues = [meta_Namespace p, meta_Name p, container_Name cs, reason],
                    Value = (if \<exists>w. Waiting (State cs) = Some w \<and> waiting_Reason w = reason
                             then 1 else 0)\<rparr>)
               [''ContainerCreating'', ''CrashLoopBackOff'', ''CreateContainerConfigError'',
                ''ErrImagePull'', ''ImagePullBackOff''])
           (ContainerStatuses (pod_Status p)))),
      init_globals) \<and>
   (ContainerStatuses (pod_Status p) = pre @ cs # post \<and>
    (\<forall>w. Waiting (State cs) = Some w \<longrightarrow>
       waiting_Reason w \<notin> {''ContainerCreating'', ''CrashLoopBackOff'',
         ''CreateContainerConfigError'', ''ErrImagePull'', ''ImagePullBackOff''}) \<longrightarrow>
    (\<exists>before after.
       length before = 5 * length pre \<and> length after = 5 * length post \<and>
       wrapPodFunc kube_pod_container_status_waiting_reason init_globals (PodObject p) =
         (Inr (before @
               [\<lparr>Name = ''kube_pod_container_status_waiting_reason'',
                 LabelKeys = [''namespace'', ''pod'', ''container'', ''reason''],
                 LabelValues = [meta_Namespace p, meta_Name p, container_Name cs,
                                ''ContainerCreating''],
                 Value = 0\<rparr>,
                \<lparr>Name = ''kube_pod_container_status_waiting_reason'',
                 LabelKeys = [''namespace'', ''pod'', ''container'', ''reason''],
                 LabelValues = [meta_Namespace p, meta_Name p, container_Name cs,
                                ''CrashLoopBackOff''],
                 Value = 0\<rparr>,
                \<lparr>Name = ''kube_pod_container_status_waiting_reason'',
                 LabelKeys = [''namespace'', ''pod'', ''container'', ''reason''],
                 LabelValues = [meta_Namespace p, meta_Name p, container_Name cs,
                                ''CreateContainerConfigError''],
                 Value = 0\<rparr>,
                \<lparr>Name = ''kube_pod_container_status_waiting_reason'',
                 LabelKeys = [''namespace'', ''pod'', ''container'', ''reason''],
                 LabelValues = [meta_Namespace p, meta_Name p, container_Name cs,
                                ''ErrImagePull''],
                 Value = 0\<rparr>,
                \<lparr>Name = ''kube_pod_container_status_waiting_reason'',
                 LabelKeys = [''namespace'', ''pod'', ''container'', ''reason''],
                 LabelValues = [meta_Namespace p, meta_Name p, container_Name cs,
                                ''ImagePullBackOff''],
                 Value = 0\<rparr>] @ after),
          init_globals)))"
  (is "?general \<and> (?outside \<longrightarrow> ?zero)")
proof
  show general: ?general
    by (simp add: wrapPodFunc_init [OF kube_pod_container_status_waiting_reason_family]
        boolFloat64_waitingReason containerWaitingReasons_def map_concat comp_def)
  show "?outside \<longrightarrow> ?zero"
  proof
    assume outside: ?outside
    let ?block = "\<lambda>cs. map (\<lambda>reason.
                   \<lparr>Name = ''kube_pod_container_status_waiting_reason'',
                    LabelKeys = [''namespace'', ''pod'', ''container'', ''reason''],
                    LabelValues = [meta_Namespace p, meta_Name p, container_Name cs, reason],
                    Value = (if \<exists>w. Waiting (State cs) = Some w \<and> waiting_Reason w = reason
                             then 1 else 0 :: real)\<rparr>)
               [''ContainerCreating'', ''CrashLoopBackOff'', ''CreateContainerConfigError'',
                ''ErrImagePull'', ''ImagePullBackOff'']"
    have len: "\<And>xs. length (concat (map ?block xs)) = 5 * length xs"
      by (induct_tac xs) simp_all
    from outside have zero: "\<And>reason. reason \<in> {''ContainerCreating'', ''CrashLoopBackOff'',
         ''CreateContainerConfigError'', ''ErrImagePull'', ''ImagePullBackOff''} \<Longrightarrow>
         \<not> (\<exists>w. Waiting (State cs) = Some w \<and> waiting_Reason w = reason)"
      by blast
    show ?zero
      apply (rule exI [of _ "concat (map ?block pre)"])
      apply (rule exI [of _ "concat (map ?block post)"])
      apply (simp only: len general)
      using outside zero apply simp
      done
  qed
qed

theorem waiting_reason_samples_witness:
  "ContainerStatuses (pod_Status pod_node_lost) =
     [] @ \<lparr>container_Name = ''app'',
            State = \<lparr>Waiting = Some \<lparr>waiting_Reason = ''PodInitializing''\<rparr>,
                     Terminated = None\<rparr>,
            LastTerminationState = \<lparr>Waiting = None, Terminated = None\<rparr>\<rparr> # [] \<and>
   wrapPodFunc kube_pod_container_status_waiting_reason init_globals (PodObject pod_node_lost) =
     (Inr [\<lparr>Name = ''kube_pod_container_status_waiting_reason'',
            LabelKeys = [''namespace'', ''pod'', ''container'', ''reason''],
            LabelValues = [''default'', ''web-0'', ''app'', ''ContainerCreating''],
            Value = 0\<rparr>,
           \<lparr>Name = ''kube_pod_container_status_waiting_reason'',
            LabelKeys = [''namespace'', ''pod'', ''container'', ''reason''],
            LabelValues = [''default'', ''web-0'', ''app'', ''CrashLoopBackOff''],
            Value = 0\<rparr>,
           \<lparr>Name = ''kube_pod_container_status_waiting_reason'',
            LabelKeys = [''namespace'', ''pod'', ''container'', ''reason''],
            LabelValues = [''default'', ''web-0'', ''app'', ''CreateContainerConfigError''],
            Value = 0\<rparr>,
           \<lparr>Name = ''kube_pod_container_status_waiting_reason'',
            LabelKeys = [''namespace'', ''pod'', ''container'', ''reason''],
            LabelValues = [''default'', ''web-0'', ''app'', ''ErrImagePull''],
            Value = 0\<rparr>,
           \<lparr>Name = ''kube_pod_container_status_waiting_reason'',
            LabelKeys = [''namespace'', ''pod'', ''container'', ''reason''],
            LabelValues = [''default'', ''web-0'', ''app'', ''ImagePullBackOff''],
            Value = 0\<rparr>],
      init_globals) \<and>
   wrapPodFunc kube_pod_container_status_waiting_reason init_globals (PodObject pod_crash_loop) =
     (Inr [\<lparr>Name = ''kube_pod_container_status_waiting_reason'',
            LabelKeys = [''namespace'', ''pod'', ''container'', ''reason''],
            LabelValues = [''default'', ''db-0'', ''db'', ''ContainerCreating''],
            Value = 0\<rparr>,
           \<lparr>Name = ''kube_pod_container_status_waiting_reason'',
            LabelKeys = [''namespace'', ''pod'', ''container'', ''reason''],
            LabelValues = [''default'', ''db-0'', ''db'', ''CrashLoopBackOff''],
            Value = 1\<rparr>,
           \<lparr>Name = ''kube_pod_container_status_waiting_reason'',
            LabelKeys = [''namespace'', ''pod'', ''container'', ''reason''],
            LabelValues = [''default'', ''db-0'', ''db'', ''CreateContainerConfigError''],
            Value = 0\<rparr>,
           \<lparr>Name = ''kube_pod_container_status_waiting_reason'',
            LabelKeys = [''namespace'', ''pod'', ''container'', ''reason''],
            LabelValues = [''default'', ''db-0'', ''db'', ''ErrImagePull''],
            Value = 0\<rparr>,
           \<lparr>Name = ''kube_pod_container_status_waiting_reason'',
            LabelKeys = [''namespace'', ''pod'', ''container'', ''reason''],
            LabelValues = [''default'', ''db-0'', ''db'', ''ImagePullBackOff''],
            Value = 0\<rparr>],
      init_globals)"
proof -
  let ?cs = "\<lparr>container_Name = ''app'',
            State = \<lparr>Waiting = Some \<lparr>waiting_Reason = ''PodInitializing''\<rparr>,
                     Terminated = None\<rparr>,
            LastTerminationState = \<lparr>Waiting = None, Terminated = None\<rparr>\<rparr>"
  have split: "ContainerStatuses (pod_Status pod_node_lost) = [] @ ?cs # []"
    by (simp add: pod_node_lost_def)
  have outside: "\<forall>w. Waiting (State ?cs) = Some w \<longrightarrow>
       waiting_Reason w \<notin> {''ContainerCreating'', ''CrashLoopBackOff'',
         ''CreateContainerConfigError'', ''ErrImagePull'', ''ImagePullBackOff''}"
    by simp
  have names: "meta_Namespace pod_node_lost = ''default''" "meta_Name pod_node_lost = ''web-0''"
    by (simp_all add: pod_node_lost_def)
  from waiting_reason_samples [of pod_node_lost "[]" ?cs "[]"] split outside
  have lost: "wrapPodFunc kube_pod_container_status_waiting_reason init_globals
      (PodObject pod_node_lost) =
     (Inr [\<lparr>Name = ''kube_pod_container_status_waiting_reason'',
            LabelKeys = [''namespace'', ''pod'', ''container'', ''reason''],
            LabelValues = [''default'', ''web-0'', ''app'', ''ContainerCreating''],
            Value = 0\<rparr>,
           \<lparr>Name = ''kube_pod_container_status_waiting_reason'',
            LabelKeys = [''namespace'', ''pod'', ''container'', ''reason''],
            LabelValues = [''default'', ''web-0'', ''app'', ''CrashLoopBackOff''],
            Value = 0\<rparr>,
           \<lparr>Name = ''kube_pod_container_status_waiting_reason'',
            LabelKeys = [''namespace'', ''pod'', ''container'', ''reason''],
            LabelValues = [''default'', ''web-0'', ''app'', ''CreateContainerConfigError''],
            Value = 0\<rparr>,
           \<lparr>Name = ''kube_pod_container_status_waiting_reason'',
            LabelKeys = [''namespace'', ''pod'', ''container'', ''reason''],
            LabelValues = [''default'', ''web-0'', ''app'', ''ErrImagePull''],
            Value = 0\<rparr>,
           \<lparr>Name = ''kube_pod_container_status_waiting_reason'',
            LabelKeys = [''namespace'', ''pod'', ''container'', ''reason''],
            LabelValues = [''default'', ''web-0'', ''app'', ''ImagePullBackOff''],
            Value = 0\<rparr>],
      init_globals)"
    by (simp add: names)
  have crash: "wrapPodFunc kube_pod_container_status_waiting_reason init_globals
      (PodObject pod_crash_loop) =
     (Inr [\<lparr>Name = ''kube_pod_container_status_waiting_reason'',
            LabelKeys = [''namespace'', ''pod'', ''container'', ''reason''],
            LabelValues = [''default'', ''db-0'', ''db'', ''ContainerCreating''],
            Value = 0\<rparr>,
           \<lparr>Name = ''kube_pod_container_status_waiting_reason'',
            LabelKeys = [''namespace'', ''pod'', ''container'', ''reason''],
            LabelValues = [''default'', ''db-0'', ''db'', ''CrashLoopBackOff''],
            Value = 1\<rparr>,
           \<lparr>Name = ''kube_pod_container_status_waiting_reason'',
            LabelKeys = [''namespace'', ''pod'', ''container'', ''reason''],
            LabelValues = [''default'', ''db-0'', ''db'', ''CreateContainerConfigError''],
            Value = 0\<rparr>,
           \<lparr>Name = ''kube_pod_container_status_waiting_reason'',
            LabelKeys = [''namespace'', ''pod'', ''container'', ''reason''],
            LabelValues = [''default'', ''db-0'', ''db'', ''ErrImagePull''],
            Value = 0\<rparr>,
           \<lparr>Name = ''kube_pod_container_status_waiting_reason'',
            LabelKeys = [''namespace'', ''pod'', ''container'', ''reason''],
            LabelValues = [''default'', ''db-0'', ''db'', ''ImagePullBackOff''],
            Value = 0\<rparr>],
      init_globals)"
    using waiting_reason_samples [of pod_crash_loop "[]" ?cs "[]", THEN conjunct1]
    by (simp add: pod_crash_loop_def)
  from split lost crash show ?thesis by simp
qed

text \<open>
  C5. \<^verbatim>\<open>kube_pod_owner\<close>: a pod without owner references yields one sample whose
  three extra label values are \<^verbatim>\<open><none>\<close>, valued 1; a pod with owner references yields
  one sample per reference, in order, with the owner's kind and name and the controller
  flag as \<^verbatim>\<open>true\<close> or \<^verbatim>\<open>false\<close> (a flag that is not set reads \<^verbatim>\<open>false\<close>), valued 1.
\<close>

theorem pod_owner_samples:
  "(OwnerReferences p = [] \<longrightarrow>
      wrapPodFunc kube_pod_owner init_globals (PodObject p) =
        (Inr [\<lparr>Name = ''kube_pod_owner'',
               LabelKeys = [''namespace'', ''pod'', ''owner_kind'', ''owner_name'',
                            ''owner_is_controller''],
               LabelValues = [meta_Namespace p, meta_Name p, ''<none>'', ''<none>'',
                              ''<none>''],
               Value = 1\<rparr>],
         init_globals)) \<and>
   (OwnerReferences p \<noteq> [] \<longrightarrow>
      wrapPodFunc kube_pod_owner init_globals (PodObject p) =
        (Inr (map (\<lambda>owner.
                \<lparr>Name = ''kube_pod_owner'',
                 LabelKeys = [''namespace'', ''pod'', ''owner_kind'', ''owner_name'',
                              ''owner_is_controller''],
                 LabelValues = [meta_Namespace p, meta_Name p, owner_Kind owner,
                                owner_Name owner,
                                if Controller owner = Some True then ''true'' else ''false''],
                 Value = 1\<rparr>)
              (OwnerReferences p)),
         init_globals))"
  by (simp add: wrapPodFunc_init [OF kube_pod_owner_family] comp_def)

theorem pod_owner_samples_witness:
  "OwnerReferences pod_node_lost = [] \<and>
   wrapPodFunc kube_pod_owner init_globals (PodObject pod_node_lost) =
     (Inr [\<lparr>Name = ''kube_pod_owner'',
            LabelKeys = [''namespace'', ''pod'', ''owner_kind'', ''owner_name'',
                         ''owner_is_controller''],
            LabelValues = [''default'', ''web-0'', ''<none>'', ''<none>'', ''<none>''],
            Value = 1\<rparr>],
      init_globals) \<and>
   OwnerReferences pod_two_owners \<noteq> [] \<and>
   wrapPodFunc kube_pod_owner init_globals (PodObject pod_two_owners) =
     (Inr [\<lparr>Name = ''kube_pod_owner'',
            LabelKeys = [''namespace'', ''pod'', ''owner_kind'', ''owner_name'',
                         ''owner_is_controller''],
            LabelValues = [''batch'', ''job-7'', ''ConfigMap'', ''settings'', ''false''],
            Value = 1\<rparr>,
           \<lparr>Name = ''kube_pod_owner'',
            LabelKeys = [''namespace'', ''pod'', ''owner_kind'', ''owner_name'',
                         ''owner_is_controller''],
            LabelValues = [''batch'', ''job-7'', ''Job'', [], ''true''],
            Value = 1\<rparr>],
      init_globals)"
proof -
  have h1: "OwnerReferences pod_node_lost = []"
    by (simp add: pod_node_lost_def)
  have h2: "OwnerReferences pod_two_owners \<noteq> []"
    by (simp add: pod_two_owners_def)
  have 1: "wrapPodFunc kube_pod_owner init_globals (PodObject pod_node_lost) =
     (Inr [\<lparr>Name = ''kube_pod_owner'',
            LabelKeys = [''namespace'', ''pod'', ''owner_kind'', ''owner_name'',
                         ''owner_is_controller''],
            LabelValues = [''default'', ''web-0'', ''<none>'', ''<none>'', ''<none>''],
            Value = 1\<rparr>],
      init_globals)"
    using pod_owner_samples [of pod_node_lost] h1 by (simp add: pod_node_lost_def)
  have 2: "wrapPodFunc kube_pod_owner init_globals (PodObject pod_two_owners) =
     (Inr [\<lparr>Name = ''kube_pod_owner'',
            LabelKeys = [''namespace'', ''pod'', ''owner_kind'', ''owner_name'',
                         ''owner_is_controller''],
            LabelValues = [''batch'', ''job-7'', ''ConfigMap'', ''settings'', ''false''],
            Value = 1\<rparr>,
           \<lparr>Name = ''kube_pod_owner'',
            LabelKeys = [''namespace'', ''pod'', ''owner_kind'', ''owner_name'',
                         ''owner_is_controller''],
            LabelValues = [''batch'', ''job-7'', ''Job'', [], ''true''],
            Value = 1\<rparr>],
      init_globals)"
    using pod_owner_samples [of pod_two_owners] h2 by (simp add: pod_two_owners_def)
  from h1 h2 1 2 show ?thesis by simp
qed

text \<open>
  C6. For a pod and each of its conditions of type Ready (respectively PodScheduled)
  whose status is True, False or Unknown, \<^verbatim>\<open>kube_pod_status_ready\<close> (respectively
  \<^verbatim>\<open>kube_pod_status_scheduled\<close>) yields three samples of that name with the one extra
  label \<^verbatim>\<open>condition\<close>, valued \<^verbatim>\<open>true\<close>, \<^verbatim>\<open>false\<close> and \<^verbatim>\<open>unknown\<close>; the sample that
  matches the status is at 1 and the other two are at 0. The three samples stand behind
  those of the earlier conditions of that type and before those of the later ones, so a
  pod with one such condition yields exactly these three.
\<close>

theorem pod_condition_tristate:
  assumes conds: "Conditions (pod_Status p) = pre @ c # post"
    and status: "cond_Status c \<in> {''True'', ''False'', ''Unknown''}"
  shows
   "(cond_Type c = ''Ready'' \<longrightarrow>
      (\<exists>before after v_true v_false v_unknown.
         wrapPodFunc kube_pod_status_ready init_globals (PodObject p) =
           (Inr (before @
                 [\<lparr>Name = ''kube_pod_status_ready'',
                   LabelKeys = [''namespace'', ''pod'', ''condition''],
                   LabelValues = [meta_Namespace p, meta_Name p, ''true''],
                   Value = v_true\<rparr>,
                  \<lparr>Name = ''kube_pod_status_ready'',
                   LabelKeys = [''namespace'', ''pod'', ''condition''],
                   LabelValues = [meta_Namespace p, meta_Name p, ''false''],
                   Value = v_false\<rparr>,
                  \<lparr>Name = ''kube_pod_status_ready'',
                   LabelKeys = [''namespace'', ''pod'', ''condition''],
                   LabelValues = [meta_Namespace p, meta_Name p, ''unknown''],
                   Value = v_unknown\<rparr>] @ after),
            init_globals) \<and>
         [v_true, v_false, v_unknown] =
           (if cond_Status c = ''True'' then [1, 0, 0]
            else if cond_Status c = ''False'' then [0, 1, 0] else [0, 0, 1]) \<and>
         length before = 3 * length (filter (\<lambda>c'. cond_Type c' = ''Ready'') pre) \<and>
         length after = 3 * length (filter (\<lambda>c'. cond_Type c' = ''Ready'') post))) \<and>
    (cond_Type c = ''PodScheduled'' \<longrightarrow>
      (\<exists>before after v_true v_false v_unknown.
         wrapPodFunc kube_pod_status_scheduled init_globals (PodObject p) =
           (Inr (before @
                 [\<lparr>Name = ''kube_pod_status_scheduled'',
                   LabelKeys = [''namespace'', ''pod'', ''condition''],
                   LabelValues = [meta_Namespace p, meta_Name p, ''true''],
                   Value = v_true\<rparr>,
                  \<lparr>Name = ''kube_pod_status_scheduled'',
                   LabelKeys = [''namespace'', ''pod'', ''condition''],
                   LabelValues = [meta_Namespace p, meta_Name p, ''false''],
                   Value = v_false\<rparr>,
                  \<lparr>Name = ''kube_pod_status_scheduled'',
                   LabelKeys = [''namespace'', ''pod'', ''condition''],
                   LabelValues = [meta_Namespace p, meta_Name p, ''unknown''],
                   Value = v_unknown\<rparr>] @ after),
            init_globals) \<and>
         [v_true, v_false, v_unknown] =
           (if cond_Status c = ''True'' then [1, 0, 0]
            else if cond_Status c = ''False'' then [0, 1, 0] else [0, 0, 1]) \<and>
         length before = 3 * length (filter (\<lambda>c'. cond_Type c' = ''PodScheduled'') pre) \<and>
         length after = 3 * length (filter (\<lambda>c'. cond_Type c' = ''PodScheduled'') post)))"
proof -
  have tri: "\<And>nm ty gen.
    wrapPodFunc gen init_globals (PodObject p) =
     (Inr (concat (map (\<lambda>c.
        [\<lparr>Name = nm, LabelKeys = [''namespace'', ''pod'', ''condition''],
          LabelValues = [meta_Namespace p, meta_Name p, ''true''],
          Value = (if cond_Status c = ''True'' then 1 else 0)\<rparr>,
         \<lparr>Name = nm, LabelKeys = [''namespace'', ''pod'', ''condition''],
          LabelValues = [meta_Namespace p, meta_Name p, ''false''],
          Value = (if cond_Status c = ''False'' then 1 else 0)\<rparr>,
         \<lparr>Name = nm, LabelKeys = [''namespace'', ''pod'', ''condition''],
          LabelValues = [meta_Namespace p, meta_Name p, ''unknown''],
          Value = (if cond_Status c = ''Unknown'' then 1 else 0)\<rparr>])
        (filter (\<lambda>c. cond_Type c = ty) (Conditions (pod_Status p))))),
      init_globals) \<Longrightarrow> cond_Type c = ty \<Longrightarrow>
    \<exists>before after v_true v_false v_unknown.
         wrapPodFunc gen init_globals (PodObject p) =
           (Inr (before @
                 [\<lparr>Name = nm,
                   LabelKeys = [''namespace'', ''pod'', ''condition''],
                   LabelValues = [meta_Namespace p, meta_Name p, ''true''],
                   Value = v_true\<rparr>,
                  \<lparr>Name = nm,
                   LabelKeys = [''namespace'', ''pod'', ''condition''],
                   LabelValues = [meta_Namespace p, meta_Name p, ''false''],
                   Value = v_false\<rparr>,
                  \<lparr>Name = nm,
                   LabelKeys = [''namespace'', ''pod'', ''condition''],
                   LabelValues = [meta_Namespace p, meta_Name p, ''unknown''],
                   Value = v_unknown\<rparr>] @ after),
            init_globals) \<and>
         [v_true, v_false, v_unknown] =
           (if cond_Status c = ''True'' then [1, 0, 0]
            else if cond_Status c = ''False'' then [0, 1, 0] else [0, 0, 1 :: real]) \<and>
         length before = 3 * length (filter (\<lambda>c'. cond_Type c' = ty) pre) \<and>
         length after = 3 * length (filter (\<lambda>c'. cond_Type c' = ty) post)"
  proof -
    fix nm ty gen
    let ?block = "\<lambda>c.
        [\<lparr>Name = nm, LabelKeys = [''namespace'', ''pod'', ''condition''],
          LabelValues = [meta_Namespace p, meta_Name p, ''true''],
          Value = (if cond_Status c = ''True'' then 1 else 0 :: real)\<rparr>,
         \<lparr>Name = nm, LabelKeys = [''namespace'', ''pod'', ''condition''],
          LabelValues = [meta_Namespace p, meta_Name p, ''false''],
          Value = (if cond_Status c = ''False'' then 1 else 0)\<rparr>,
         \<lparr>Name = nm, LabelKeys = [''namespace'', ''pod'', ''condition''],
          LabelValues = [meta_Namespace p, meta_Name p, ''unknown''],
          Value = (if cond_Status c = ''Unknown'' then 1 else 0)\<rparr>]"
    assume out: "wrapPodFunc gen init_globals (PodObject p) =
      (Inr (concat (map ?block (filter (\<lambda>c. cond_Type c = ty) (Conditions (pod_Status p))))),
       init_globals)"
      and ty: "cond_Type c = ty"
    let ?before = "concat (map ?block (filter (\<lambda>c. cond_Type c = ty) pre))"
    let ?after = "concat (map ?block (filter (\<lambda>c. cond_Type c = ty) post))"
    have split: "concat (map ?block (filter (\<lambda>c. cond_Type c = ty) (Conditions (pod_Status p))))
        = ?before @ ?block c @ ?after"
      using ty by (simp add: conds)
    have vals: "[if cond_Status c = ''True'' then 1 else 0,
                 if cond_Status c = ''False'' then 1 else 0,
                 if cond_Status c = ''Unknown'' then 1 else 0] =
           (if cond_Status c = ''True'' then [1, 0, 0]
            else if cond_Status c = ''False'' then [0, 1, 0] else [0, 0, 1 :: real])"
      using status by auto
    show "\<exists>before after v_true v_false v_unknown.
         wrapPodFunc gen init_globals (PodObject p) =
           (Inr (before @
                 [\<lparr>Name = nm,
                   LabelKeys = [''namespace'', ''pod'', ''condition''],
                   LabelValues = [meta_Namespace p, meta_Name p, ''true''],
                   Value = v_true\<rparr>,
                  \<lparr>Name = nm,
                   LabelKeys = [''namespace'', ''pod'', ''condition''],
                   LabelValues = [meta_Namespace p, meta_Name p, ''false''],
                   Value = v_false\<rparr>,
                  \<lparr>Name = nm,
                   LabelKeys = [''namespace'', ''pod'', ''condition''],
                   LabelValues = [meta_Namespace p, meta_Name p, ''unknown''],
                   Value = v_unknown\<rparr>] @ after),
            init_globals) \<and>
         [v_true, v_false, v_unknown] =
           (if cond_Status c = ''True'' then [1, 0, 0]
            else if cond_Status c = ''False'' then [0, 1, 0] else [0, 0, 1 :: real]) \<and>
         length before = 3 * length (filter (\<lambda>c'. cond_Type c' = ty) pre) \<and>
         length after = 3 * length (filter (\<lambda>c'. cond_Type c' = ty) post)"
      apply (rule exI [of _ ?before])
      apply (rule exI [of _ ?after])
      apply (rule exI [of _ "if cond_Status c = ''True'' then 1 else 0"])
      apply (rule exI [of _ "if cond_Status c = ''False'' then 1 else 0"])
      apply (rule exI [of _ "if cond_Status c = ''Unknown'' then 1 else 0"])
      apply (simp only: out split vals length_condition_blocks)
      done
  qed
  show ?thesis
    using tri [OF wrapped_condition_family [of kube_pod_status_ready p _ "''Ready''",
                 OF kube_pod_status_ready_family]]
          tri [OF wrapped_condition_family [of kube_pod_status_scheduled p _ "''PodScheduled''",
                 OF kube_pod_status_scheduled_family]]
    by blast
qed

theorem pod_condition_tristate_witness:
  "Conditions (pod_Status pod_node_lost) =
     [] @ \<lparr>cond_Type = ''Ready'', cond_Status = ''False''\<rparr> #
          [\<lparr>cond_Type = ''PodScheduled'', cond_Status = ''True''\<rparr>] \<and>
   wrapPodFunc kube_pod_status_ready init_globals (PodObject pod_node_lost) =
     (Inr [\<lparr>Name = ''kube_pod_status_ready'',
            LabelKeys = [''namespace'', ''pod'', ''condition''],
            LabelValues = [''default'', ''web-0'', ''true''], Value = 0\<rparr>,
           \<lparr>Name = ''kube_pod_status_ready'',
            LabelKeys = [''namespace'', ''pod'', ''condition''],
            LabelValues = [''default'', ''web-0'', ''false''], Value = 1\<rparr>,
           \<lparr>Name = ''kube_pod_status_ready'',
            LabelKeys = [''namespace'', ''pod'', ''condition''],
            LabelValues = [''default'', ''web-0'', ''unknown''], Value = 0\<rparr>],
      init_globals) \<and>
   Conditions (pod_Status pod_node_lost) =
     [\<lparr>cond_Type = ''Ready'', cond_Status = ''False''\<rparr>] @
     \<lparr>cond_Type = ''PodScheduled'', cond_Status = ''True''\<rparr> # [] \<and>
   wrapPodFunc kube_pod_status_scheduled init_globals (PodObject pod_node_lost) =
     (Inr [\<lparr>Name = ''kube_pod_status_scheduled'',
            LabelKeys = [''namespace'', ''pod'', ''condition''],
            LabelValues = [''default'', ''web-0'', ''true''], Value = 1\<rparr>,
           \<lparr>Name = ''kube_pod_status_scheduled'',
            LabelKeys = [''namespace'', ''pod'', ''condition''],
            LabelValues = [''default'', ''web-0'', ''false''], Value = 0\<rparr>,
           \<lparr>Name = ''kube_pod_status_scheduled'',
            LabelKeys = [''namespace'', ''pod'', ''condition''],
            LabelValues = [''default'', ''web-0'', ''unknown''], Value = 0\<rparr>],
      init_globals)"
proof -
  let ?r = "\<lparr>cond_Type = ''Ready'', cond_Status = ''False''\<rparr>"
  let ?s = "\<lparr>cond_Type = ''PodScheduled'', cond_Status = ''True''\<rparr>"
  have c1: "Conditions (pod_Status pod_node_lost) = [] @ ?r # [?s]"
    by (simp add: pod_node_lost_def)
  have c2: "Conditions (pod_Status pod_node_lost) = [?r] @ ?s # []"
    by (simp add: pod_node_lost_def)
  have s1: "cond_Status ?r \<in> {''True'', ''False'', ''Unknown''}" by simp
  have s2: "cond_Status ?s \<in> {''True'', ''False'', ''Unknown''}" by simp
  have names: "meta_Namespace pod_node_lost = ''default''" "meta_Name pod_node_lost = ''web-0''"
    by (simp_all add: pod_node_lost_def)
  from pod_condition_tristate [OF c1 s1, THEN conjunct1]
  have ready: "wrapPodFunc kube_pod_status_ready init_globals (PodObject pod_node_lost) =
     (Inr [\<lparr>Name = ''kube_pod_status_ready'',
            LabelKeys = [''namespace'', ''pod'', ''condition''],
            LabelValues = [''default'', ''web-0'', ''true''], Value = 0\<rparr>,
           \<lparr>Name = ''kube_pod_status_ready'',
            LabelKeys = [''namespace'', ''pod'', ''condition''],
            LabelValues = [''default'', ''web-0'', ''false''], Value = 1\<rparr>,
           \<lparr>Name = ''kube_pod_status_ready'',
            LabelKeys = [''namespace'', ''pod'', ''condition''],
            LabelValues = [''default'', ''web-0'', ''unknown''], Value = 0\<rparr>],
      init_globals)"
    by (auto simp: names)
  from pod_condition_tristate [OF c2 s2, THEN conjunct2]
  have scheduled: "wrapPodFunc kube_pod_status_scheduled init_globals (PodObject pod_node_lost) =
     (Inr [\<lparr>Name = ''kube_pod_status_scheduled'',
            LabelKeys = [''namespace'', ''pod'', ''condition''],
            LabelValues = [''default'', ''web-0'', ''true''], Value = 1\<rparr>,
           \<lparr>Name = ''kube_pod_status_scheduled'',
            LabelKeys = [''namespace'', ''pod'', ''condition''],
            LabelValues = [''default'', ''web-0'', ''false''], Value = 0\<rparr>,
           \<lparr>Name = ''kube_pod_status_scheduled'',
            LabelKeys = [''namespace'', ''pod'', ''condition''],
            LabelValues = [''default'', ''web-0'', ''unknown''], Value = 0\<rparr>],
      init_globals)"
    by (auto simp: names)
  from c1 c2 ready scheduled show ?thesis by simp
qed

text \<open>
  A pod that reports two Ready conditions gets three samples for each of them, six in
  all, one of each three at 1.
\<close>

lemma two_ready_conditions_six_samples:
  "wrapPodFunc kube_pod_status_ready init_globals (PodObject pod_crash_loop) =
     (Inr [\<lparr>Name = ''kube_pod_status_ready'',
            LabelKeys = [''namespace'', ''pod'', ''condition''],
            LabelValues = [''default'', ''db-0'', ''true''], Value = 0\<rparr>,
           \<lparr>Name = ''kube_pod_status_ready'',
            LabelKeys = [''namespace'', ''pod'', ''condition''],
            LabelValues = [''default'', ''db-0'', ''false''], Value = 0\<rparr>,
           \<lparr>Name = ''kube_pod_status_ready'',
            LabelKeys = [''namespace'', ''pod'', ''condition''],
            LabelValues = [''default'', ''db-0'', ''unknown''], Value = 1\<rparr>,
           \<lparr>Name = ''kube_pod_status_ready'',
            LabelKeys = [''namespace'', ''pod'', ''condition''],
            LabelValues = [''default'', ''db-0'', ''true''], Value = 1\<rparr>,
           \<lparr>Name = ''kube_pod_status_ready'',
            LabelKeys = [''namespace'', ''pod'', ''condition''],
            LabelValues = [''default'', ''db-0'', ''false''], Value = 0\<rparr>,
           \<lparr>Name = ''kube_pod_status_ready'',
            LabelKeys = [''namespace'', ''pod'', ''condition''],
            LabelValues = [''default'', ''db-0'', ''unknown''], Value = 0\<rparr>],
      init_globals)"
  using wrapped_condition_family [of kube_pod_status_ready pod_crash_loop _ "''Ready''",
          OF kube_pod_status_ready_family]
  by (simp add: pod_crash_loop_def)

text \<open>
  C7. A deployment without the desired-replicas field (a nil \<^verbatim>\<open>Spec.Replicas\<close>) should
  give no \<^verbatim>\<open>kube_deployment_spec_replicas\<close> sample and no failure. The generator
  dereferences the pointer without a check: on such a deployment it panics, and the
  wrapper passes the panic on. The statement below evaluates the registered generator on
  a deployment whose replicas pointer is nil.
\<close>

theorem spec_replicas_nil_panics:
  "spec_Replicas (deployment_Spec deployment_unset) = None \<and>
   map FamilyName (deploymentMetricFamilies kl) ! 4 = ''kube_deployment_spec_replicas'' \<and>
   GenerateFunc (deploymentMetricFamilies kl ! 4) init_globals
       (DeploymentObject deployment_unset) =
     (Inl NilPointerDereference, init_globals) \<and>
   kube_deployment_spec_replicas (d\<lparr>deployment_Spec := \<lparr>spec_Replicas = None\<rparr>\<rparr>) =
     Inl NilPointerDereference \<and>
   wrapDeploymentFunc kube_deployment_spec_replicas g
       (DeploymentObject (d\<lparr>deployment_Spec := \<lparr>spec_Replicas = None\<rparr>\<rparr>)) =
     (Inl NilPointerDereference, g)"
  by (simp add: deploymentMetricFamilies_def kube_deployment_spec_replicas_def
      wrapDeploymentFunc_def deployment_unset_def)

text \<open>With the field set, the generator yields its one sample.\<close>

lemma spec_replicas_set:
  "spec_Replicas (deployment_Spec d) = Some r \<Longrightarrow>
   wrapDeploymentFunc kube_deployment_spec_replicas init_globals (DeploymentObject d) =
     (Inr [\<lparr>Name = ''kube_deployment_spec_replicas'',
            LabelKeys = [''namespace'', ''deployment''],
            LabelValues = [meta_Namespace d, meta_Name d],
            Value = float64_of_int (sint r)\<rparr>],
      init_globals)"
proof -
  assume "spec_Replicas (deployment_Spec d) = Some r"
  then have "kube_deployment_spec_replicas d =
     Inr [Metric0\<lparr>Name := ''kube_deployment_spec_replicas'',
                  Value := float64_of_int (sint r)\<rparr>]"
    by (simp add: kube_deployment_spec_replicas_def)
  from wrapDeploymentFunc_init [of kube_deployment_spec_replicas d, OF this]
  show ?thesis by (simp add: Metric0_def)
qed

text \<open>
  C8. Every sample of every registered pod, deployment and namespace generator has as many
  label keys as label values, before wrapping (the inner generator) and after (the
  registered, wrapped one). The label and annotation conversions are parameters; they are
  taken to return as many keys as values.
\<close>

theorem label_keys_and_values_pair_up:
  assumes kl: "\<forall>labels. length (fst (kl labels)) = length (snd (kl labels))"
    and ka: "\<forall>annotations. length (fst (ka annotations)) = length (snd (ka annotations))"
  shows
   "(\<forall>f \<in> {kube_pod_info, kube_pod_owner, kube_pod_status_phase, kube_pod_status_ready,
           kube_pod_status_scheduled, kube_pod_container_status_waiting_reason}.
       \<forall>p fam. f p = Inr fam \<longrightarrow>
         (\<forall>m \<in> set fam. length (LabelKeys m) = length (LabelValues m))) \<and>
    (\<forall>f \<in> {kube_deployment_created, kube_deployment_status_replicas,
           kube_deployment_status_replicas_available,
           kube_deployment_status_replicas_unavailable, kube_deployment_spec_replicas,
           kube_deployment_labels kl}.
       \<forall>d fam. f d = Inr fam \<longrightarrow>
         (\<forall>m \<in> set fam. length (LabelKeys m) = length (LabelValues m))) \<and>
    (\<forall>f \<in> {kube_namespace_labels kl, kube_namespace_annotations ka}.
       \<forall>n fam. f n = Inr fam \<longrightarrow>
         (\<forall>m \<in> set fam. length (LabelKeys m) = length (LabelValues m))) \<and>
    (\<forall>gen \<in> set (podMetricFamilies @ deploymentMetricFamilies kl @
                  namespaceMetricFamilies kl ka).
       \<forall>obj fam g. GenerateFunc gen init_globals obj = (Inr fam, g) \<longrightarrow>
         (\<forall>m \<in> set fam. length (LabelKeys m) = length (LabelValues m)))"
proof (intro conjI ballI allI impI)
  fix gen obj fam g m
  assume gen: "gen \<in> set (podMetricFamilies @ deploymentMetricFamilies kl @
                  namespaceMetricFamilies kl ka)"
    and out: "GenerateFunc gen init_globals obj = (Inr fam, g)" and m: "m \<in> set fam"
  from gen consider
      (pod) "gen \<in> set podMetricFamilies"
    | (deployment) "gen \<in> set (deploymentMetricFamilies kl)"
    | (namespace) "gen \<in> set (namespaceMetricFamilies kl ka)"
    by auto
  then show "length (LabelKeys m) = length (LabelValues m)"
  proof cases
    case pod
    from pod_registered [OF pod] obtain f where
      f: "f \<in> {kube_pod_info, kube_pod_owner, kube_pod_status_phase, kube_pod_status_ready,
          kube_pod_status_scheduled, kube_pod_container_status_waiting_reason}"
      and eq: "GenerateFunc gen = wrapPodFunc f" by blast
    from out m show ?thesis
      unfolding eq by (rule wrapPodFunc_paired [rotated]) (rule pod_inner_paired [OF f])
  next
    case deployment
    from deployment_registered [OF deployment] obtain f where
      f: "f \<in> {kube_deployment_created, kube_deployment_status_replicas,
          kube_deployment_status_replicas_available,
          kube_deployment_status_replicas_unavailable, kube_deployment_spec_replicas,
          kube_deployment_labels kl}"
      and eq: "GenerateFunc gen = wrapDeploymentFunc f" by blast
    from out m show ?thesis
      unfolding eq
      by (rule wrapDeploymentFunc_paired [rotated]) (rule deployment_inner_paired [OF kl f])
  next
    case namespace
    from namespace_registered [OF namespace] obtain f where
      f: "f \<in> {kube_namespace_labels kl, kube_namespace_annotations ka}"
      and eq: "GenerateFunc gen = wrapNamespaceFunc f" by blast
    from out m show ?thesis
      unfolding eq
      by (rule wrapNamespaceFunc_paired [rotated]) (rule namespace_inner_paired [OF kl ka f])
  qed
qed (erule (2) pod_inner_paired deployment_inner_paired [OF kl]
       namespace_inner_paired [OF kl ka])+

theorem label_keys_and_values_pair_up_witness:
  "(\<forall>labels. length (fst (labels_app_only labels)) = length (snd (labels_app_only labels))) \<and>
   (\<forall>annotations. length (fst (annotations_none annotations)) =
      length (snd (annotations_none annotations))) \<and>
   kube_deployment_labels labels_app_only deployment_web =
     Inr [\<lparr>Name = ''kube_deployment_labels'', LabelKeys = [''label_app''],
           LabelValues = [''web''], Value = 1\<rparr>] \<and>
   length (LabelKeys \<lparr>Name = ''kube_deployment_labels'', LabelKeys = [''label_app''],
                     LabelValues = [''web''], Value = 1\<rparr>) =
   length (LabelValues \<lparr>Name = ''kube_deployment_labels'', LabelKeys = [''label_app''],
                       LabelValues = [''web''], Value = 1\<rparr>) \<and>
   GenerateFunc (deploymentMetricFamilies labels_app_only ! 5) init_globals
       (DeploymentObject deployment_web) =
     (Inr [\<lparr>Name = ''kube_deployment_labels'',
            LabelKeys = [''namespace'', ''deployment'', ''label_app''],
            LabelValues = [''default'', ''web'', ''web''], Value = 1\<rparr>],
      init_globals) \<and>
   length (LabelKeys \<lparr>Name = ''kube_deployment_labels'',
                     LabelKeys = [''namespace'', ''deployment'', ''label_app''],
                     LabelValues = [''default'', ''web'', ''web''], Value = 1\<rparr>) =
   length (LabelValues \<lparr>Name = ''kube_deployment_labels'',
                       LabelKeys = [''namespace'', ''deployment'', ''label_app''],
                       LabelValues = [''default'', ''web'', ''web''], Value = 1\<rparr>)"
proof -
  let ?inner = "\<lparr>Name = ''kube_deployment_labels'', LabelKeys = [''label_app''],
                 LabelValues = [''web''], Value = 1 :: real\<rparr>"
  let ?outer = "\<lparr>Name = ''kube_deployment_labels'',
                 LabelKeys = [''namespace'', ''deployment'', ''label_app''],
                 LabelValues = [''default'', ''web'', ''web''], Value = 1 :: real\<rparr>"
  have kl: "\<forall>labels. length (fst (labels_app_only labels)) =
      length (snd (labels_app_only labels))"
    by (simp add: labels_app_only_def split: option.splits)
  have ka: "\<forall>annotations. length (fst (annotations_none annotations)) =
      length (snd (annotations_none annotations))"
    by (simp add: annotations_none_def)
  note all = label_keys_and_values_pair_up [OF kl ka]
  have inner: "kube_deployment_labels labels_app_only deployment_web = Inr [?inner]"
    by (simp add: kube_deployment_labels_def labels_app_only_def deployment_web_def
        descDeploymentLabelsName_def)
  have outer: "GenerateFunc (deploymentMetricFamilies labels_app_only ! 5) init_globals
       (DeploymentObject deployment_web) = (Inr [?outer], init_globals)"
    using wrapDeploymentFunc_init [of "kube_deployment_labels labels_app_only" deployment_web,
            OF inner]
    by (simp add: deploymentMetricFamilies_def deployment_web_def)
  have mem: "deploymentMetricFamilies labels_app_only ! 5 \<in>
      set (podMetricFamilies @ deploymentMetricFamilies labels_app_only @
           namespaceMetricFamilies labels_app_only annotations_none)"
    by (simp add: deploymentMetricFamilies_def)
  from all inner have 1: "length (LabelKeys ?inner) = length (LabelValues ?inner)"
    by (metis insertCI list.set_intros(1))
  from all mem outer have 2: "length (LabelKeys ?outer) = length (LabelValues ?outer)"
    by (metis list.set_intros(1))
  from kl ka inner outer 1 2 show ?thesis by blast
qed



text \<open>
  C10. \<^verbatim>\<open>kube_pod_info\<close> yields exactly one sample, valued 1, with the six extra labels
  host_ip, pod_ip, uid, node, created_by_kind and created_by_name. Without a controlling
  owner reference both created_by values are \<^verbatim>\<open><none>\<close>; with one (the first reference
  whose controller flag is true), an empty kind or name reads \<^verbatim>\<open><none>\<close> and a non-empty
  one is echoed.
\<close>

theorem pod_info_sample:
  "\<exists>kind name.
     wrapPodFunc kube_pod_info init_globals (PodObject p) =
       (Inr [\<lparr>Name = ''kube_pod_info'',
              LabelKeys = [''namespace'', ''pod'', ''host_ip'', ''pod_ip'', ''uid'', ''node'',
                           ''created_by_kind'', ''created_by_name''],
              LabelValues = [meta_Namespace p, meta_Name p, HostIP (pod_Status p),
                             PodIP (pod_Status p), UID p, NodeName (pod_Spec p), kind, name],
              Value = 1\<rparr>],
        init_globals) \<and>
     ((\<forall>ref \<in> set (OwnerReferences p). Controller ref \<noteq> Some True) \<longrightarrow>
        kind = ''<none>'' \<and> name = ''<none>'') \<and>
     (\<forall>pre ref post.
        OwnerReferences p = pre @ ref # post \<and>
        (\<forall>r \<in> set pre. Controller r \<noteq> Some True) \<and> Controller ref = Some True \<longrightarrow>
        kind = (if owner_Kind ref = [] then ''<none>'' else owner_Kind ref) \<and>
        name = (if owner_Name ref = [] then ''<none>'' else owner_Name ref))"
proof -
  let ?kind = "case GetControllerOf (OwnerReferences p) of
                 None \<Rightarrow> ''<none>''
               | Some ref \<Rightarrow> if owner_Kind ref \<noteq> [] then owner_Kind ref else ''<none>''"
  let ?name = "case GetControllerOf (OwnerReferences p) of
                 None \<Rightarrow> ''<none>''
               | Some ref \<Rightarrow> if owner_Name ref \<noteq> [] then owner_Name ref else ''<none>''"
  have fam: "kube_pod_info p =
     Inr [\<lparr>Name = ''kube_pod_info'',
           LabelKeys = [''host_ip'', ''pod_ip'', ''uid'', ''node'', ''created_by_kind'',
                        ''created_by_name''],
           LabelValues = [HostIP (pod_Status p), PodIP (pod_Status p), UID p,
                          NodeName (pod_Spec p), ?kind, ?name],
           Value = 1\<rparr>]"
    by (simp add: kube_pod_info_def Let_def)
  have out: "wrapPodFunc kube_pod_info init_globals (PodObject p) =
       (Inr [\<lparr>Name = ''kube_pod_info'',
              LabelKeys = [''namespace'', ''pod'', ''host_ip'', ''pod_ip'', ''uid'', ''node'',
                           ''created_by_kind'', ''created_by_name''],
              LabelValues = [meta_Namespace p, meta_Name p, HostIP (pod_Status p),
                             PodIP (pod_Status p), UID p, NodeName (pod_Spec p), ?kind, ?name],
              Value = 1\<rparr>],
        init_globals)"
    by (simp add: wrapPodFunc_init [of kube_pod_info p, OF fam])
  have none: "(\<forall>ref \<in> set (OwnerReferences p). Controller ref \<noteq> Some True) \<longrightarrow>
        ?kind = ''<none>'' \<and> ?name = ''<none>''"
    by (simp add: GetControllerOf_None)
  have some: "\<forall>pre ref post.
        OwnerReferences p = pre @ ref # post \<and>
        (\<forall>r \<in> set pre. Controller r \<noteq> Some True) \<and> Controller ref = Some True \<longrightarrow>
        ?kind = (if owner_Kind ref = [] then ''<none>'' else owner_Kind ref) \<and>
        ?name = (if owner_Name ref = [] then ''<none>'' else owner_Name ref)"
    by (auto simp: GetControllerOf_first)
  from out none some show ?thesis by blast
qed


theorem pod_info_sample_witness:
  "OwnerReferences pod_node_lost = [] \<and>
   wrapPodFunc kube_pod_info init_globals (PodObject pod_node_lost) =
     (Inr [\<lparr>Name = ''kube_pod_info'',
            LabelKeys = [''namespace'', ''pod'', ''host_ip'', ''pod_ip'', ''uid'', ''node'',
                         ''created_by_kind'', ''created_by_name''],
            LabelValues = [''default'', ''web-0'', ''10.0.0.1'', ''172.16.0.5'', ''uid-1'',
                           ''node-1'', ''<none>'', ''<none>''],
            Value = 1\<rparr>],
      init_globals) \<and>
   OwnerReferences pod_two_owners =
     [\<lparr>owner_Kind = ''ConfigMap'', owner_Name = ''settings'', Controller = None\<rparr>] @
     \<lparr>owner_Kind = ''Job'', owner_Name = [], Controller = Some True\<rparr> # [] \<and>
   wrapPodFunc kube_pod_info init_globals (PodObject pod_two_owners) =
     (Inr [\<lparr>Name = ''kube_pod_info'',
            LabelKeys = [''namespace'', ''pod'', ''host_ip'', ''pod_ip'', ''uid'', ''node'',
                         ''created_by_kind'', ''created_by_name''],
            LabelValues = [''batch'', ''job-7'', [], [], ''uid-2'', ''node-2'', ''Job'',
                           ''<none>''],
            Value = 1\<rparr>],
      init_globals)"
proof -
  have h0: "OwnerReferences pod_node_lost = []"
    by (simp add: pod_node_lost_def)
  then have h1: "\<forall>ref \<in> set (OwnerReferences pod_node_lost). Controller ref \<noteq> Some True"
    by simp
  have h2: "OwnerReferences pod_two_owners =
     [\<lparr>owner_Kind = ''ConfigMap'', owner_Name = ''settings'', Controller = None\<rparr>] @
     \<lparr>owner_Kind = ''Job'', owner_Name = [], Controller = Some True\<rparr> # []"
    by (simp add: pod_two_owners_def)
  have h3: "\<forall>r \<in> set [\<lparr>owner_Kind = ''ConfigMap'', owner_Name = ''settings'',
                          Controller = None\<rparr>]. Controller r \<noteq> Some True"
    by simp
  from pod_info_sample [of pod_node_lost] h1
  have 1: "wrapPodFunc kube_pod_info init_globals (PodObject pod_node_lost) =
     (Inr [\<lparr>Name = ''kube_pod_info'',
            LabelKeys = [''namespace'', ''pod'', ''host_ip'', ''pod_ip'', ''uid'', ''node'',
                         ''created_by_kind'', ''created_by_name''],
            LabelValues = [''default'', ''web-0'', ''10.0.0.1'', ''172.16.0.5'', ''uid-1'',
                           ''node-1'', ''<none>'', ''<none>''],
            Value = 1\<rparr>],
      init_globals)"
    by (auto simp: pod_node_lost_def)
  from pod_info_sample [of pod_two_owners]
  obtain kind name where
    out: "wrapPodFunc kube_pod_info init_globals (PodObject pod_two_owners) =
       (Inr [\<lparr>Name = ''kube_pod_info'',
              LabelKeys = [''namespace'', ''pod'', ''host_ip'', ''pod_ip'', ''uid'', ''node'',
                           ''created_by_kind'', ''created_by_name''],
              LabelValues = [meta_Namespace pod_two_owners, meta_Name pod_two_owners,
                             HostIP (pod_Status pod_two_owners),
                             PodIP (pod_Status pod_two_owners), UID pod_two_owners,
                             NodeName (pod_Spec pod_two_owners), kind, name],
              Value = 1\<rparr>],
        init_globals)"
    and ctl: "\<forall>pre ref post.
        OwnerReferences pod_two_owners = pre @ ref # post \<and>
        (\<forall>r \<in> set pre. Controller r \<noteq> Some True) \<and> Controller ref = Some True \<longrightarrow>
        kind = (if owner_Kind ref = [] then ''<none>'' else owner_Kind ref) \<and>
        name = (if owner_Name ref = [] then ''<none>'' else owner_Name ref)"
    by blast
  from ctl h2 h3 have "kind = ''Job'' \<and> name = ''<none>''"
    by (metis (no_types, lifting) OwnerReference.select_convs(1,2,3) list.discI)
  with out have 2: "wrapPodFunc kube_pod_info init_globals (PodObject pod_two_owners) =
     (Inr [\<lparr>Name = ''kube_pod_info'',
            LabelKeys = [''namespace'', ''pod'', ''host_ip'', ''pod_ip'', ''uid'', ''node'',
                         ''created_by_kind'', ''created_by_name''],
            LabelValues = [''batch'', ''job-7'', [], [], ''uid-2'', ''node-2'', ''Job'',
                           ''<none>''],
            Value = 1\<rparr>],
      init_globals)"
    by (simp add: pod_two_owners_def)
  from h0 h2 1 2 show ?thesis by simp
qed

end
